theory Spec2Isabelle
  imports Complex_Main "HOL-Library.Sublist"
begin

section \<open>JavaScript strings and values\<close>

text \<open>
  A JavaScript string is a sequence of UTF-16 code units; a code unit is modelled as a
  natural number. ASCII literals of the source are written with \<open>utf16\<close>; the three
  non-ASCII literals of the sources are built from their code units.

  The two source files carry different bytes where the superscript two and the bullet
  stand: \<^verbatim>\<open>src/unnamed/part_000\<close> has U+00B2 and U+2022, while
  \<^verbatim>\<open>src/app/static/js/analysis.js\<close> has the two characters U+00AC U+2264 and the
  three characters U+201A U+00C4 U+00A2 in their place.
\<close>

type_synonym jsstring = "nat list"

definition utf16 :: "string \<Rightarrow> jsstring" where
  "utf16 s = map of_char s"

definition O_n_squared_part0 :: jsstring where
  \<comment> \<open>the key written \<^verbatim>\<open>'O(n\<close> U+00B2 \<^verbatim>\<open>)'\<close> in part_000\<close>
  "O_n_squared_part0 = utf16 ''O(n'' @ [178] @ utf16 '')''"

definition O_n_squared_analysis :: jsstring where
  \<comment> \<open>the key written \<^verbatim>\<open>'O(n\<close> U+00AC U+2264 \<^verbatim>\<open>)'\<close> in analysis.js\<close>
  "O_n_squared_analysis = utf16 ''O(n'' @ [172, 8804] @ utf16 '')''"

text \<open>
  Property lookup \<open>obj[key]\<close> on an object literal: an own property wins; otherwise
  the lookup walks to \<open>Object.prototype\<close>, whose members are functions (and, for
  \<open>__proto__\<close>, the prototype object itself); otherwise the result is \<open>undefined\<close>.
\<close>

definition objectPrototypeKeys :: "jsstring list" where
  "objectPrototypeKeys = map utf16
     [''constructor'', ''hasOwnProperty'', ''isPrototypeOf'', ''propertyIsEnumerable'',
      ''toLocaleString'', ''toString'', ''valueOf'', ''__proto__'',
      ''__defineGetter__'', ''__defineSetter__'', ''__lookupGetter__'', ''__lookupSetter__'']"

datatype 'a lookup = Own 'a | Inherited jsstring | Absent

definition getProp :: "(jsstring \<times> 'a) list \<Rightarrow> jsstring \<Rightarrow> 'a lookup" where
  "getProp obj key =
     (case map_of obj key of
        Some v \<Rightarrow> Own v
      | None \<Rightarrow> if key \<in> set objectPrototypeKeys then Inherited key else Absent)"

text \<open>
  What a scoring function returns: a number, \<open>NaN\<close>, or a member of
  \<open>Object.prototype\<close> that a table lookup has dug out.
\<close>

datatype jsresult = Number int | NaN | ObjectMember jsstring

text \<open>The argument \<open>{time: ..., space: ...}\<close>; a field left out is \<open>undefined\<close>.\<close>

record complexityAnalysis =
  time :: "jsstring option"
  space :: "jsstring option"

definition orElse :: "jsstring option \<Rightarrow> jsstring \<Rightarrow> jsstring" where
  \<comment> \<open>\<open>s || d\<close> for a string or undefined \<open>s\<close>: the empty string is falsy too\<close>
  "orElse s d = (case s of None \<Rightarrow> d | Some x \<Rightarrow> if x = [] then d else x)"

definition scoreOr :: "int lookup \<Rightarrow> int \<Rightarrow> jsresult" where
  \<comment> \<open>\<open>table[key] || d\<close>: zero and undefined are falsy, functions and objects are truthy\<close>
  "scoreOr p d =
     (case p of
        Own n \<Rightarrow> if n = 0 then Number d else Number n
      | Inherited k \<Rightarrow> ObjectMember k
      | Absent \<Rightarrow> Number d)"

definition Math_round :: "real \<Rightarrow> int" where
  \<comment> \<open>nearest integer, a tie going up\<close>
  "Math_round x = \<lfloor>x + 1 / 2\<rfloor>"

definition roundedMean :: "jsresult \<Rightarrow> jsresult \<Rightarrow> jsresult" where
  \<comment> \<open>\<open>Math.round((a + b) / 2)\<close>: with a function or object operand \<open>+\<close> concatenates
      strings, the quotient is \<open>NaN\<close> and so is its rounding\<close>
  "roundedMean a b =
     (case (a, b) of
        (Number x, Number y) \<Rightarrow> Number (Math_round ((real_of_int x + real_of_int y) / 2))
      | _ \<Rightarrow> NaN)"

section \<open>Score derivation\<close>

subsection \<open>src/unnamed/part_000\<close>

definition performanceScores_part0 :: "(jsstring \<times> int) list" where
  "performanceScores_part0 =
     [(utf16 ''O(1)'', 95),
      (utf16 ''O(log n)'', 85),
      (utf16 ''O(n)'', 70),
      (utf16 ''O(n log n)'', 55),
      (O_n_squared_part0, 25),
      (utf16 ''O(n^2)'', 25),
      (utf16 ''O(2^n)'', 5)]"

definition calculatePerformanceScore_part0 :: "complexityAnalysis option \<Rightarrow> jsresult" where
  "calculatePerformanceScore_part0 complexityAnalysis =
     (case complexityAnalysis of
        None \<Rightarrow> Number 50
      | Some a \<Rightarrow>
          let timeComplexity = orElse (time a) (utf16 ''O(n)'')
          in scoreOr (getProp performanceScores_part0 timeComplexity) 50)"

definition complexityScores_part0 :: "(jsstring \<times> int) list" where
  "complexityScores_part0 =
     [(utf16 ''O(1)'', 10),
      (utf16 ''O(log n)'', 8),
      (utf16 ''O(n)'', 6),
      (utf16 ''O(n log n)'', 4),
      (O_n_squared_part0, 2),
      (utf16 ''O(n^2)'', 2),
      (utf16 ''O(2^n)'', 1)]"

definition calculateComplexityScore_part0 :: "complexityAnalysis option \<Rightarrow> jsresult" where
  "calculateComplexityScore_part0 complexityAnalysis =
     (case complexityAnalysis of
        None \<Rightarrow> Number 5
      | Some a \<Rightarrow>
          let timeComplexity = orElse (time a) (utf16 ''O(n)'');
              spaceComplexity = orElse (space a) (utf16 ''O(1)'');
              timeScore = scoreOr (getProp complexityScores_part0 timeComplexity) 5;
              spaceScore = scoreOr (getProp complexityScores_part0 spaceComplexity) 8
          in roundedMean timeScore spaceScore)"

subsection \<open>src/app/static/js/analysis.js\<close>

definition performanceScores_analysis :: "(jsstring \<times> int) list" where
  "performanceScores_analysis =
     [(utf16 ''O(1)'', 95),
      (utf16 ''O(log n)'', 85),
      (utf16 ''O(n)'', 70),
      (utf16 ''O(n log n)'', 55),
      (O_n_squared_analysis, 25),
      (utf16 ''O(n^2)'', 25),
      (utf16 ''O(2^n)'', 5)]"

definition calculatePerformanceScore_analysis :: "complexityAnalysis option \<Rightarrow> jsresult" where
  "calculatePerformanceScore_analysis complexityAnalysis =
     (case complexityAnalysis of
        None \<Rightarrow> Number 50
      | Some a \<Rightarrow>
          let timeComplexity = orElse (time a) (utf16 ''O(n)'')
          in scoreOr (getProp performanceScores_analysis timeComplexity) 50)"

definition complexityScores_analysis :: "(jsstring \<times> int) list" where
  "complexityScores_analysis =
     [(utf16 ''O(1)'', 10),
      (utf16 ''O(log n)'', 8),
      (utf16 ''O(n)'', 6),
      (utf16 ''O(n log n)'', 4),
      (O_n_squared_analysis, 2),
      (utf16 ''O(n^2)'', 2),
      (utf16 ''O(2^n)'', 1)]"

definition calculateComplexityScore_analysis :: "complexityAnalysis option \<Rightarrow> jsresult" where
  "calculateComplexityScore_analysis complexityAnalysis =
     (case complexityAnalysis of
        None \<Rightarrow> Number 5
      | Some a \<Rightarrow>
          let timeComplexity = orElse (time a) (utf16 ''O(n)'');
              spaceComplexity = orElse (space a) (utf16 ''O(1)'');
              timeScore = scoreOr (getProp complexityScores_analysis timeComplexity) 5;
              spaceScore = scoreOr (getProp complexityScores_analysis spaceComplexity) 8
          in roundedMean timeScore spaceScore)"

subsection \<open>The scores of a token, as the callers ask for them\<close>

text \<open>
  \<open>parseComplexityFromAgent\<close> calls the two functions with \<open>{time: t}\<close> and with
  \<open>{time: t, space: s}\<close>.
\<close>

definition performanceScore_part0 :: "jsstring \<Rightarrow> jsresult" where
  "performanceScore_part0 t =
     calculatePerformanceScore_part0 (Some \<lparr>time = Some t, space = None\<rparr>)"

definition performanceScore_analysis :: "jsstring \<Rightarrow> jsresult" where
  "performanceScore_analysis t =
     calculatePerformanceScore_analysis (Some \<lparr>time = Some t, space = None\<rparr>)"

definition overallScore_part0 :: "jsstring \<Rightarrow> jsstring \<Rightarrow> jsresult" where
  "overallScore_part0 t s =
     calculateComplexityScore_part0 (Some \<lparr>time = Some t, space = Some s\<rparr>)"

definition overallScore_analysis :: "jsstring \<Rightarrow> jsstring \<Rightarrow> jsresult" where
  "overallScore_analysis t s =
     calculateComplexityScore_analysis (Some \<lparr>time = Some t, space = Some s\<rparr>)"


subsection \<open>The score tables as the specification words them\<close>

definition claimed_performanceScore :: "jsstring \<Rightarrow> int" where
  \<comment> \<open>exact-match table lookup, 50 for every other string\<close>
  "claimed_performanceScore t =
     (if t = utf16 ''O(1)'' then 95
      else if t = utf16 ''O(log n)'' then 85
      else if t = utf16 ''O(n)'' then 70
      else if t = utf16 ''O(n log n)'' then 55
      else if t = O_n_squared_part0 \<or> t = utf16 ''O(n^2)'' then 25
      else if t = utf16 ''O(2^n)'' then 5
      else 50)"

definition claimed_severity :: "int \<Rightarrow> jsstring \<Rightarrow> int" where
  \<comment> \<open>the severity table, with the default for an unrecognized token as a parameter\<close>
  "claimed_severity d t =
     (if t = utf16 ''O(1)'' then 10
      else if t = utf16 ''O(log n)'' then 8
      else if t = utf16 ''O(n)'' then 6
      else if t = utf16 ''O(n log n)'' then 4
      else if t = O_n_squared_part0 \<or> t = utf16 ''O(n^2)'' then 2
      else if t = utf16 ''O(2^n)'' then 1
      else d)"

definition claimed_overallScore :: "jsstring \<Rightarrow> jsstring \<Rightarrow> int" where
  \<comment> \<open>the arithmetic mean of the two severities, rounded half up\<close>
  "claimed_overallScore t s =
     Math_round ((real_of_int (claimed_severity 5 t) + real_of_int (claimed_severity 8 s)) / 2)"

text \<open>
  The same tables with what the code adds by design: an empty token is replaced by
  \<open>O(n)\<close> (time) or \<open>O(1)\<close> (space) before the lookup, and a token that names a member
  of \<open>Object.prototype\<close> finds that member instead of the default.
\<close>

definition amended_performanceScore :: "jsstring \<Rightarrow> jsresult" where
  "amended_performanceScore t =
     (if t = [] then Number 70
      else if t \<in> set objectPrototypeKeys then ObjectMember t
      else Number (claimed_performanceScore t))"

definition amended_severity :: "jsstring \<Rightarrow> int \<Rightarrow> jsstring \<Rightarrow> int" where
  "amended_severity fallback d t = claimed_severity d (if t = [] then fallback else t)"

definition amended_overallScore :: "jsstring \<Rightarrow> jsstring \<Rightarrow> jsresult" where
  "amended_overallScore t s =
     (if t \<in> set objectPrototypeKeys \<or> s \<in> set objectPrototypeKeys then NaN
      else Number (Math_round
        ((real_of_int (amended_severity (utf16 ''O(n)'') 5 t)
          + real_of_int (amended_severity (utf16 ''O(1)'') 8 s)) / 2)))"

section \<open>String operations\<close>

fun startsWith :: "jsstring \<Rightarrow> jsstring \<Rightarrow> bool" where
  "startsWith s [] = True"
| "startsWith [] (p # ps) = False"
| "startsWith (c # cs) (p # ps) = (c = p \<and> startsWith cs ps)"

fun includes_js :: "jsstring \<Rightarrow> jsstring \<Rightarrow> bool" where
  "includes_js [] p = (p = [])"
| "includes_js (c # cs) p = (startsWith (c # cs) p \<or> includes_js cs p)"

text \<open>
  \<open>toLowerCase\<close> is modelled on ASCII, where it maps \<open>A\<close>..\<open>Z\<close> to \<open>a\<close>..\<open>z\<close>; code
  units outside ASCII are left as they are. The only use of the function is before the
  substring tests of \<open>getComplexityColor\<close>, and Unicode maps no character outside ASCII
  to a sequence holding a character of the tested patterns (U+0130 and U+212A alone have
  ASCII letters in their lower case, \<open>i\<close> and \<open>k\<close>), and none of the non-ASCII pattern
  characters has a case mapping, so the branch taken is the same.
\<close>

definition toLowerCase :: "jsstring \<Rightarrow> jsstring" where
  "toLowerCase s = map (\<lambda>c. if 65 \<le> c \<and> c \<le> 90 then c + 32 else c) s"

text \<open>
  White space and line terminators, as \<open>trim\<close> and the class \<open>\s\<close> see them:
  TAB, LF, VT, FF, CR, SP, NBSP, U+1680, U+2000..U+200A, U+2028, U+2029, U+202F,
  U+205F, U+3000, U+FEFF.
\<close>

definition isWhiteSpace :: "nat \<Rightarrow> bool" where
  "isWhiteSpace c =
     ((9 \<le> c \<and> c \<le> 13) \<or> c = 32 \<or> c = 160 \<or> c = 5760 \<or> (8192 \<le> c \<and> c \<le> 8202)
      \<or> c = 8232 \<or> c = 8233 \<or> c = 8239 \<or> c = 8287 \<or> c = 12288 \<or> c = 65279)"

definition trim :: "jsstring \<Rightarrow> jsstring" where
  "trim s = rev (dropWhile isWhiteSpace (rev (dropWhile isWhiteSpace s)))"

fun showNat :: "nat \<Rightarrow> jsstring" where
  "showNat n = (if n < 10 then [48 + n] else showNat (n div 10) @ [48 + n mod 10])"

declare showNat.simps [simp del]

fun joinWith :: "jsstring \<Rightarrow> jsstring list \<Rightarrow> jsstring" where
  "joinWith sep [] = []"
| "joinWith sep [x] = x"
| "joinWith sep (x # y # ys) = x @ sep @ joinWith sep (y # ys)"

section \<open>Values\<close>

text \<open>
  The values the program handles come out of \<open>JSON.parse\<close>, of string operations and of
  missing properties: \<open>undefined\<close>, \<open>null\<close>, booleans, numbers, strings, arrays and plain
  objects (a list of own properties, a name bound once). A number is kept as the two
  things the program observes of it: whether it is falsy (zero or \<open>NaN\<close>), and the
  string that \<open>String\<close> gives for it; how the platform prints a number is not modelled.
\<close>

datatype jsval =
    Undefined
  | Null
  | Bool bool
  | Num bool jsstring
  | Str jsstring
  | Arr "jsval list"
  | Obj "(jsstring \<times> jsval) list"

fun truthy :: "jsval \<Rightarrow> bool" where
  "truthy Undefined = False"
| "truthy Null = False"
| "truthy (Bool b) = b"
| "truthy (Num falsy shown) = (\<not> falsy)"
| "truthy (Str s) = (s \<noteq> [])"
| "truthy (Arr vs) = True"
| "truthy (Obj fs) = True"

datatype error = TypeError | Error jsstring

text \<open>
  The results of a list of evaluations done in order, or the first throw among them.
\<close>

fun sequence_sum :: "(error + 'a) list \<Rightarrow> error + 'a list" where
  "sequence_sum [] = Inr []"
| "sequence_sum (x # xs) =
     (case x of
        Inl e \<Rightarrow> Inl e
      | Inr v \<Rightarrow> (case sequence_sum xs of Inl e \<Rightarrow> Inl e | Inr vs \<Rightarrow> Inr (v # vs)))"

text \<open>
  \<open>String(v)\<close>. An array joins the strings of its elements with commas, \<open>null\<close> and
  \<open>undefined\<close> elements giving the empty string. A plain object gives
  \<open>[object Object]\<close> through \<open>Object.prototype.toString\<close>, unless it has an own
  property \<open>toString\<close>: a value out of \<open>JSON.parse\<close> is never callable, the inherited
  \<open>valueOf\<close> returns the object itself, and the coercion throws a \<open>TypeError\<close>.
\<close>

fun String_of :: "jsval \<Rightarrow> error + jsstring" where
  "String_of Undefined = Inr (utf16 ''undefined'')"
| "String_of Null = Inr (utf16 ''null'')"
| "String_of (Bool b) = Inr (if b then utf16 ''true'' else utf16 ''false'')"
| "String_of (Num falsy shown) = Inr shown"
| "String_of (Str s) = Inr s"
| "String_of (Arr vs) =
     map_sum id (joinWith (utf16 '',''))
       (sequence_sum
          (map (\<lambda>v. if v = Undefined \<or> v = Null then Inr [] else String_of v) vs))"
| "String_of (Obj fs) =
     (if utf16 ''toString'' \<in> fst ` set fs then Inl TypeError
      else Inr (utf16 ''[object Object]''))"


text \<open>
  \<open>v.name\<close> for a name that no prototype defines (\<open>results\<close>, \<open>success\<close>, \<open>error\<close>):
  the own property of an object, \<open>undefined\<close> on anything else. The code reads such a
  property only off a truthy value, so the access itself never throws.
\<close>

fun getField :: "jsval \<Rightarrow> jsstring \<Rightarrow> jsval" where
  "getField (Obj fs) name = (case map_of fs name of Some v \<Rightarrow> v | None \<Rightarrow> Undefined)"
| "getField v name = Undefined"

text \<open>
  \<open>name in v\<close> for a name that no prototype defines: an own property of an object or
  array; on a primitive the operator throws a \<open>TypeError\<close>.
\<close>

fun hasProperty :: "jsstring \<Rightarrow> jsval \<Rightarrow> error + bool" where
  "hasProperty name (Obj fs) = Inr (name \<in> fst ` set fs)"
| "hasProperty name (Arr vs) = Inr False"
| "hasProperty name v = Inl TypeError"

section \<open>Colour mapping\<close>

definition getComplexityColor_part0 :: "jsval \<Rightarrow> error + jsstring" where
  "getComplexityColor_part0 complexity =
     (case String_of complexity of
        Inl e \<Rightarrow> Inl e
      | Inr s \<Rightarrow>
          let c = toLowerCase s in
          if includes_js c (utf16 ''1'') then Inr (utf16 ''#00C851'')
          else if includes_js c (utf16 ''log n'') then Inr (utf16 ''#33b5e5'')
          else if includes_js c (utf16 ''n log n'') then Inr (utf16 ''#FF8800'')
          else if includes_js c (utf16 ''n^2'') \<or> includes_js c (utf16 ''n'' @ [178])
            then Inr (utf16 ''#FF4444'')
          else if includes_js c (utf16 ''2^n'') then Inr (utf16 ''#FF1744'')
          else if includes_js c (utf16 ''n'') then Inr (utf16 ''#FFA500'')
          else Inr (utf16 ''#FF4444''))"

definition getComplexityColor_analysis :: "jsval \<Rightarrow> error + jsstring" where
  "getComplexityColor_analysis complexity =
     (case String_of complexity of
        Inl e \<Rightarrow> Inl e
      | Inr s \<Rightarrow>
          let c = toLowerCase s in
          if includes_js c (utf16 ''1'') then Inr (utf16 ''#2ED573'')
          else if includes_js c (utf16 ''log n'') then Inr (utf16 ''#40E0D0'')
          else if includes_js c (utf16 ''n log n'') then Inr (utf16 ''#FFA726'')
          else if includes_js c (utf16 ''n^2'') \<or> includes_js c (utf16 ''n'' @ [172, 8804])
            then Inr (utf16 ''#FF4757'')
          else if includes_js c (utf16 ''2^n'') then Inr (utf16 ''#FF1744'')
          else if includes_js c (utf16 ''n'') then Inr (utf16 ''#00BFFF'')
          else Inr (utf16 ''#FF4757''))"

text \<open>The colours of the seven \<open>return\<close> statements, in the order of the source.\<close>

definition colors_part0 :: "jsstring list" where
  "colors_part0 = map utf16
     [''#00C851'', ''#33b5e5'', ''#FF8800'', ''#FF4444'', ''#FF1744'', ''#FFA500'', ''#FF4444'']"


subsection \<open>The colour mapping as the specification words it\<close>

definition claimed_branch :: "jsstring \<Rightarrow> nat" where
  \<comment> \<open>the first of the substring tests, in the order of precedence, that the lower-cased
      token passes, and 7 when it passes none\<close>
  "claimed_branch c =
     (if sublist (utf16 ''1'') c then 1
      else if sublist (utf16 ''log n'') c then 2
      else if sublist (utf16 ''n log n'') c then 3
      else if sublist (utf16 ''n^2'') c \<or> sublist (utf16 ''n'' @ [178]) c then 4
      else if sublist (utf16 ''2^n'') c then 5
      else if sublist (utf16 ''n'') c then 6
      else 7)"

definition claimed_color :: "jsstring list \<Rightarrow> jsstring \<Rightarrow> jsstring" where
  \<comment> \<open>the colour, among those of the seven \<open>return\<close> statements, of the coerced string\<close>
  "claimed_color colors s = colors ! (claimed_branch (toLowerCase s) - 1)"


section \<open>Response validation\<close>

definition required :: "jsstring list" where
  "required = map utf16
     [''complexity_analysis'', ''documentation'', ''refactoring_suggestions'',
      ''improvement_suggestions'']"

text \<open>
  \<open>validateResponse\<close> returns its boolean together with the list \<open>missing\<close> that it
  logs as a warning when it is not empty; a throw of the \<open>in\<close> operator is the left
  summand.
\<close>

fun missingOf :: "jsstring list \<Rightarrow> jsval \<Rightarrow> error + jsstring list" where
  "missingOf [] results = Inr []"
| "missingOf (p # ps) results =
     (case hasProperty p results of
        Inl e \<Rightarrow> Inl e
      | Inr present \<Rightarrow>
          (case missingOf ps results of
             Inl e \<Rightarrow> Inl e
           | Inr rest \<Rightarrow> Inr (if \<not> present then p # rest else rest)))"

definition validateResponse :: "jsval \<Rightarrow> error + (bool \<times> jsstring list)" where
  "validateResponse result =
     (if \<not> truthy result \<or> \<not> truthy (getField result (utf16 ''results''))
      then Inr (False, [])
      else (case missingOf required (getField result (utf16 ''results'')) of
              Inl e \<Rightarrow> Inl e
            | Inr missing \<Rightarrow> Inr (True, missing)))"

text \<open>
  The part of \<open>analyzeCode\<close> between the parsed response and the rendering: the
  \<open>try\<close> block throws on an invalid or failed response, and the \<open>catch\<close> block
  reports the error's message; otherwise the results are processed.
\<close>

definition checkResponse :: "jsval \<Rightarrow> error + jsval" where
  "checkResponse result =
     (case validateResponse result of
        Inl e \<Rightarrow> Inl e
      | Inr (ok, missing) \<Rightarrow>
          if \<not> ok then Inl (Error (utf16 ''Invalid response format from server''))
          else if getField (getField result (utf16 ''results'')) (utf16 ''success'') = Bool False
          then (let e = getField (getField result (utf16 ''results'')) (utf16 ''error'')
                in if truthy e
                   then (case String_of e of
                           Inl thrown \<Rightarrow> Inl thrown
                         | Inr message \<Rightarrow> Inl (Error message))
                   else Inl (Error (utf16 ''Analysis failed on the server.'')))
          else Inr (getField result (utf16 ''results'')))"

text \<open>What may stand where the interface expects an object.\<close>

fun isObject :: "jsval \<Rightarrow> bool" where
  "isObject (Obj fs) = True"
| "isObject (Arr vs) = True"
| "isObject v = False"

definition isAbsent :: "jsval \<Rightarrow> bool" where
  "isAbsent v = (v = Undefined \<or> v = Null)"

section \<open>Regular expressions\<close>

text \<open>
  The regular expressions of the source are built from single characters and character
  classes, sequence, alternation, the optional group \<open>(...)?\<close>, and the greedy
  repetitions \<open>+\<close>, \<open>*\<close> and \<open>{3,}\<close> of a character class. \<open>Rep n p\<close> is \<open>n\<close> or more
  code units of the class \<open>p\<close>.
\<close>

datatype re =
    Cls "nat \<Rightarrow> bool"
  | Eps
  | Seq re re
  | Alt re re
  | Opt re
  | Rep nat "nat \<Rightarrow> bool"

text \<open>
  The backtracking matcher: \<open>rests r s\<close> lists what is left of \<open>s\<close> after each way of
  matching \<open>r\<close> at its start, in the order in which the engine tries them (the
  alternatives of \<open>|\<close> from left to right, the group of \<open>?\<close> before its absence, the
  longest repetition first). The engine takes the first way that lets the rest of the
  pattern match, so the match of a whole pattern at a position is the head of the list.
\<close>

fun rests :: "re \<Rightarrow> jsstring \<Rightarrow> jsstring list" where
  "rests (Cls p) s = (case s of [] \<Rightarrow> [] | c # cs \<Rightarrow> if p c then [cs] else [])"
| "rests Eps s = [s]"
| "rests (Seq a b) s = concat (map (rests b) (rests a s))"
| "rests (Alt a b) s = rests a s @ rests b s"
| "rests (Opt a) s = rests a s @ [s]"
| "rests (Rep n p) s =
     map (\<lambda>k. drop k s) (rev [n ..< Suc (length (takeWhile p s))])"

definition chr :: "nat \<Rightarrow> re" where
  "chr x = Cls (\<lambda>c. c = x)"

definition seqs :: "re list \<Rightarrow> re" where
  "seqs rs = foldr Seq rs Eps"

definition lit :: "string \<Rightarrow> re" where
  "lit s = seqs (map (\<lambda>x. chr (of_char x)) s)"

text \<open>
  Under the flag \<open>i\<close> (without \<open>u\<close>) two code units match when their canonical forms are
  equal; the canonical form of a code unit outside ASCII is never an ASCII one, so an
  ASCII letter of a pattern matches its two cases and nothing else.
\<close>

definition upperAscii :: "nat \<Rightarrow> nat" where
  "upperAscii c = (if 97 \<le> c \<and> c \<le> 122 then c - 32 else c)"

definition chr_i :: "nat \<Rightarrow> re" where
  "chr_i x = Cls (\<lambda>c. upperAscii c = upperAscii x)"

definition lit_i :: "string \<Rightarrow> re" where
  "lit_i s = seqs (map (\<lambda>x. chr_i (of_char x)) s)"

definition isDigit :: "nat \<Rightarrow> bool" where
  \<comment> \<open>the class \<open>\d\<close>\<close>
  "isDigit c = (48 \<le> c \<and> c \<le> 57)"

definition isWord :: "nat \<Rightarrow> bool" where
  \<comment> \<open>the class \<open>\w\<close>\<close>
  "isWord c = ((65 \<le> c \<and> c \<le> 90) \<or> (97 \<le> c \<and> c \<le> 122) \<or> isDigit c \<or> c = 95)"

text \<open>
  \<open>s.match(r)\<close> for a pattern with the flag \<open>g\<close>: the matches from left to right, each
  search starting where the last match ended (one further after an empty match), and
  \<open>null\<close> when there is none.
\<close>

function matchAll :: "re \<Rightarrow> jsstring \<Rightarrow> jsstring list" where
  "matchAll r s =
     (case rests r s of
        [] \<Rightarrow> (case s of [] \<Rightarrow> [] | c # cs \<Rightarrow> matchAll r cs)
      | e # _ \<Rightarrow>
          if length e < length s then take (length s - length e) s # matchAll r e
          else (case s of [] \<Rightarrow> [[]] | c # cs \<Rightarrow> [] # matchAll r cs))"
  by pat_completeness auto
termination
  by (relation "measure (\<lambda>(r, s). length s)") auto

declare matchAll.simps [simp del]

definition match_g :: "jsstring \<Rightarrow> re \<Rightarrow> jsstring list option" where
  "match_g s r = (let ms = matchAll r s in if ms = [] then None else Some ms)"

text \<open>
  A pattern that starts with \<open>^\<close> (and has no flag \<open>m\<close>) matches at index 0 or nowhere:
  \<open>test_anchored r s\<close> is whether \<open>s.match(/^r/)\<close> finds a match, and
  \<open>replace_anchored r s\<close> is \<open>s.replace(/^r/, '')\<close>.
\<close>

definition test_anchored :: "re \<Rightarrow> jsstring \<Rightarrow> bool" where
  "test_anchored r s = (rests r s \<noteq> [])"

definition replace_anchored :: "re \<Rightarrow> jsstring \<Rightarrow> jsstring" where
  "replace_anchored r s = (case rests r s of [] \<Rightarrow> s | e # _ \<Rightarrow> e)"



text \<open>
  \<open>s.split(r)\<close>: the pattern is tried at every index \<open>q\<close> below the length; a match
  that ends beyond the start \<open>p\<close> of the running segment closes the segment at \<open>q\<close> and
  starts the next one at the end of the match. \<open>cur\<close> holds the code units from \<open>p\<close>
  to \<open>q\<close>, reversed.
\<close>

function split_from :: "re \<Rightarrow> jsstring \<Rightarrow> jsstring \<Rightarrow> jsstring list" where
  "split_from r cur s =
     (case s of
        [] \<Rightarrow> [rev cur]
      | c # cs \<Rightarrow>
          (case rests r s of
             [] \<Rightarrow> split_from r (c # cur) cs
           | e # _ \<Rightarrow>
               if length e < length s then rev cur # split_from r [] e
               else if cur = [] then split_from r [c] cs
               else rev cur # split_from r [c] cs))"
  by pat_completeness auto
termination
  by (relation "measure (\<lambda>(r, cur, s). length s)") auto

declare split_from.simps [simp del]

definition split :: "jsstring \<Rightarrow> re \<Rightarrow> jsstring list" where
  "split s r =
     (if s = [] then (if rests r [] = [] then [[]] else [])
      else split_from r [] s)"

section \<open>The function-count heuristic\<close>

definition functionPatterns :: "re list" where
  "functionPatterns =
     [seqs [lit ''function'', Rep 1 isWhiteSpace, Rep 1 isWord],
      seqs [lit ''const'', Rep 1 isWhiteSpace, Rep 1 isWord, Rep 0 isWhiteSpace, lit ''='',
            Rep 0 isWhiteSpace, lit ''(''],
      seqs [lit ''def'', Rep 1 isWhiteSpace, Rep 1 isWord],
      seqs [lit ''public'', Rep 1 isWhiteSpace, Opt (seqs [lit ''static'', Rep 1 isWhiteSpace]),
            Rep 1 isWord, Rep 1 isWhiteSpace, Rep 1 isWord, Rep 0 isWhiteSpace, lit ''(''],
      seqs [lit ''private'', Rep 1 isWhiteSpace, Opt (seqs [lit ''static'', Rep 1 isWhiteSpace]),
            Rep 1 isWord, Rep 1 isWhiteSpace, Rep 1 isWord, Rep 0 isWhiteSpace, lit ''(''],
      seqs [lit ''func'', Rep 1 isWhiteSpace, Rep 1 isWord, Rep 0 isWhiteSpace, lit ''(''],
      seqs [lit ''fn'', Rep 1 isWhiteSpace, Rep 1 isWord, Rep 0 isWhiteSpace, lit ''(''],
      seqs [Rep 1 isWord, Rep 1 isWhiteSpace, Rep 1 isWord, Rep 0 isWhiteSpace, lit ''('',
            Rep 0 (\<lambda>c. c \<noteq> 41), lit '')'', Rep 0 isWhiteSpace, lit ''{'']]"

definition countFunctions :: "jsstring \<Rightarrow> nat" where
  "countFunctions code =
     (let count = fold (\<lambda>pattern count.
                          case match_g code pattern of
                            None \<Rightarrow> count
                          | Some matches \<Rightarrow> count + length matches)
                       functionPatterns 0
      in max 1 count)"


section \<open>Suggestion extraction\<close>

record suggestion =
  id_s :: nat
  title :: jsstring
  description :: jsstring
  priority :: jsstring
  category :: jsstring
  color :: jsstring

definition newlines :: re where
  \<comment> \<open>\<^verbatim>\<open>/\n+/\<close>\<close>
  "newlines = Rep 1 (\<lambda>c. c = 10)"

definition headerPattern :: re where
  \<comment> \<open>\<^verbatim>\<open>/^(REFACTORING|SUGGESTIONS?|={3,}|-{3,})/i\<close>, without its anchor\<close>
  "headerPattern =
     Alt (lit_i ''REFACTORING'')
       (Alt (Seq (lit_i ''SUGGESTION'') (Opt (chr_i 83)))
         (Alt (Rep 3 (\<lambda>c. c = 61)) (Rep 3 (\<lambda>c. c = 45))))"

definition noSuggestionsMarker :: jsstring where
  "noSuggestionsMarker = utf16 ''No refactoring suggestions''"

definition cleanedLines :: "jsstring \<Rightarrow> jsstring list" where
  \<comment> \<open>the constant \<open>lines\<close>, the same in both files\<close>
  "cleanedLines refactoringText =
     filter (\<lambda>line. \<not> test_anchored headerPattern line)
       (filter (\<lambda>line. length line > 0)
         (map (\<lambda>line. trim line) (split refactoringText newlines)))"

subsection \<open>src/unnamed/part_000\<close>

definition bulletClass_part0 :: "nat \<Rightarrow> bool" where
  \<comment> \<open>the class of \<^verbatim>\<open>/^[\d\.\-\*\+\<close>U+2022\<^verbatim>\<open>\s]+/\<close>\<close>
  "bulletClass_part0 c =
     (isDigit c \<or> c = 46 \<or> c = 45 \<or> c = 42 \<or> c = 43 \<or> c = 8226 \<or> isWhiteSpace c)"

definition parseRefactoringSuggestionsFromAgent_part0 :: "jsval \<Rightarrow> error + suggestion list" where
  "parseRefactoringSuggestionsFromAgent_part0 refactoringText =
     (if \<not> truthy refactoringText then Inr []
      else case refactoringText of
        Str text \<Rightarrow>
          if includes_js text noSuggestionsMarker then Inr []
          else Inr (map (\<lambda>(index, line).
                      let cleanLine = trim (replace_anchored (Rep 1 bulletClass_part0) line)
                      in \<lparr>id_s = index,
                          title = utf16 ''Refactoring Suggestion '' @ showNat (index + 1),
                          description = cleanLine,
                          priority = (if index < 2 then utf16 ''High'' else utf16 ''Medium''),
                          category = utf16 ''Refactoring'',
                          color = utf16 ''electric-blue''\<rparr>)
                    (enumerate 0 (cleanedLines text)))
      | Arr elements \<Rightarrow>
          \<comment> \<open>an array has \<open>includes\<close>, but no \<open>split\<close>\<close>
          if Str noSuggestionsMarker \<in> set elements then Inr [] else Inl TypeError
      | _ \<Rightarrow> Inl TypeError)"

subsection \<open>src/app/static/js/analysis.js\<close>

definition bulletClass_analysis :: "nat \<Rightarrow> bool" where
  \<comment> \<open>the class of \<^verbatim>\<open>/^[\d\.\-\*\+\<close>U+201A U+00C4 U+00A2\<^verbatim>\<open>\s]+/\<close>\<close>
  "bulletClass_analysis c =
     (isDigit c \<or> c = 46 \<or> c = 45 \<or> c = 42 \<or> c = 43 \<or> c = 8218 \<or> c = 196 \<or> c = 162
      \<or> isWhiteSpace c)"

definition parseRefactoringSuggestionsFromAgent_analysis :: "jsval \<Rightarrow> error + suggestion list"
  where
  "parseRefactoringSuggestionsFromAgent_analysis refactoringText =
     (if \<not> truthy refactoringText then Inr []
      else case refactoringText of
        Str text \<Rightarrow>
          if includes_js text noSuggestionsMarker then Inr []
          else sequence_sum
                 (map (\<lambda>(index, line).
                      let cleanLine = trim (replace_anchored (Rep 1 bulletClass_analysis) line)
                      in case getComplexityColor_analysis (Str (utf16 ''O(1)'')) of
                           Inl e \<Rightarrow> Inl e
                         | Inr c \<Rightarrow>
                             Inr \<lparr>id_s = index,
                                  title = utf16 ''[OPTIMIZATION #'' @ showNat (index + 1)
                                            @ utf16 '']'',
                                  description = cleanLine,
                                  priority = (if index < 2 then utf16 ''HIGH''
                                              else utf16 ''MEDIUM''),
                                  category = utf16 ''REFACTOR'',
                                  color = c\<rparr>)
                    (enumerate 0 (cleanedLines text)))
      | Arr elements \<Rightarrow>
          if Str noSuggestionsMarker \<in> set elements then Inr [] else Inl TypeError
      | _ \<Rightarrow> Inl TypeError)"

subsection \<open>Suggestion extraction as the specification words it\<close>

fun splitLines :: "jsstring \<Rightarrow> jsstring list" where
  \<comment> \<open>the segments between the newline characters\<close>
  "splitLines [] = [[]]"
| "splitLines (c # cs) =
     (if c = 10 then [] # splitLines cs
      else (case splitLines cs of [] \<Rightarrow> [[c]] | x # xs \<Rightarrow> (c # x) # xs))"

definition startsWith_i :: "jsstring \<Rightarrow> string \<Rightarrow> bool" where
  \<comment> \<open>starts with the word, whatever the case of its letters\<close>
  "startsWith_i s w = startsWith (map upperAscii s) (map upperAscii (utf16 w))"

definition isHeaderLine :: "jsstring \<Rightarrow> bool" where
  "isHeaderLine line =
     (startsWith_i line ''REFACTORING'' \<or> startsWith_i line ''SUGGESTION''
      \<or> startsWith_i line ''SUGGESTIONS''
      \<or> startsWith line (utf16 ''==='') \<or> startsWith line (utf16 ''---''))"

definition survivingLines :: "jsstring \<Rightarrow> jsstring list" where
  \<comment> \<open>trimmed segments, without the empty ones and the header and separator lines\<close>
  "survivingLines text =
     filter (\<lambda>line. line \<noteq> [] \<and> \<not> isHeaderLine line) (map trim (splitLines text))"

definition isBulletGlyph :: "nat \<Rightarrow> bool" where
  \<comment> \<open>digits, period, hyphen, asterisk, plus sign, bullet, white space\<close>
  "isBulletGlyph c =
     (isDigit c \<or> c = 46 \<or> c = 45 \<or> c = 42 \<or> c = 43 \<or> c = 8226 \<or> isWhiteSpace c)"

definition claimed_suggestions ::
  "string \<Rightarrow> string \<Rightarrow> string \<Rightarrow> jsstring \<Rightarrow> (nat \<times> jsstring \<times> jsstring \<times> jsstring) list"
  where
  \<comment> \<open>ordinal, description, priority and category of each surviving line, for the
      labels of the two priority tiers and of the category\<close>
  "claimed_suggestions high medium refactoring text =
     map (\<lambda>(i, line). (i, dropWhile isBulletGlyph line,
                        if i < 2 then utf16 high else utf16 medium,
                        utf16 refactoring))
       (enumerate 0 (survivingLines text))"

definition facts :: "suggestion \<Rightarrow> nat \<times> jsstring \<times> jsstring \<times> jsstring" where
  "facts s = (id_s s, description s, priority s, category s)"

definition exampleSuggestions :: jsstring where
  \<comment> \<open>\<^verbatim>\<open>"1. Extract method\n2. Rename variable\n3. Remove dead code"\<close>\<close>
  "exampleSuggestions =
     utf16 ''1. Extract method'' @ [10] @ utf16 ''2. Rename variable'' @ [10]
       @ utf16 ''3. Remove dead code''"

definition trimmed :: "jsstring \<Rightarrow> bool" where
  \<comment> \<open>no white space at either end\<close>
  "trimmed l = (l = [] \<or> (\<not> isWhiteSpace (hd l) \<and> \<not> isWhiteSpace (last l)))"

section \<open>Complexity extraction\<close>








subsection \<open>Complexity extraction as the specification words it\<close>









section \<open>Properties of the score derivation\<close>

lemma Math_round_mean: "Math_round ((real_of_int a + real_of_int b) / 2) = (a + b + 1) div 2"
proof -
  have "(real_of_int a + real_of_int b) / 2 + 1 / 2 = real_of_int (a + b + 1) / real_of_int 2"
    by (simp add: field_simps)
  then show ?thesis
    unfolding Math_round_def by (simp only: floor_divide_of_int_eq)
qed

lemmas token_defs =
  utf16_def O_n_squared_part0_def O_n_squared_analysis_def objectPrototypeKeys_def

lemma performance_lookup_part0:
  "scoreOr (getProp performanceScores_part0 k) 50 =
     (if k \<in> set objectPrototypeKeys then ObjectMember k
      else Number (claimed_performanceScore k))"
  by (simp add: scoreOr_def getProp_def performanceScores_part0_def
      claimed_performanceScore_def token_defs)

lemma performance_lookup_analysis:
  "k \<noteq> O_n_squared_part0 \<Longrightarrow> k \<noteq> O_n_squared_analysis \<Longrightarrow>
   scoreOr (getProp performanceScores_analysis k) 50 =
     (if k \<in> set objectPrototypeKeys then ObjectMember k
      else Number (claimed_performanceScore k))"
  by (simp add: scoreOr_def getProp_def performanceScores_analysis_def
      claimed_performanceScore_def token_defs)

lemma severity_lookup_part0:
  "scoreOr (getProp complexityScores_part0 k) d =
     (if k \<in> set objectPrototypeKeys then ObjectMember k else Number (claimed_severity d k))"
  by (simp add: scoreOr_def getProp_def complexityScores_part0_def claimed_severity_def
      token_defs)

lemma severity_lookup_analysis:
  "k \<noteq> O_n_squared_part0 \<Longrightarrow> k \<noteq> O_n_squared_analysis \<Longrightarrow>
   scoreOr (getProp complexityScores_analysis k) d =
     (if k \<in> set objectPrototypeKeys then ObjectMember k else Number (claimed_severity d k))"
  by (simp add: scoreOr_def getProp_def complexityScores_analysis_def claimed_severity_def
      token_defs)

lemma severity_lookup_analysis_squared:
  "scoreOr (getProp complexityScores_analysis O_n_squared_part0) d = Number d"
  "d \<noteq> 0 \<Longrightarrow> scoreOr (getProp complexityScores_analysis O_n_squared_analysis) d = Number 2"
  by (simp_all add: scoreOr_def getProp_def complexityScores_analysis_def token_defs)

lemma orElse_Some: "orElse (Some t) d = (if t = [] then d else t)"
  by (simp add: orElse_def)

lemma fallback_tokens:
  "utf16 ''O(n)'' \<notin> set objectPrototypeKeys" "utf16 ''O(1)'' \<notin> set objectPrototypeKeys"
  "[] \<notin> set objectPrototypeKeys"
  "utf16 ''O(n)'' \<noteq> O_n_squared_part0" "utf16 ''O(n)'' \<noteq> O_n_squared_analysis"
  "utf16 ''O(1)'' \<noteq> O_n_squared_part0" "utf16 ''O(1)'' \<noteq> O_n_squared_analysis"
  by (simp_all add: token_defs)

lemma performanceScore_part0_eq: "performanceScore_part0 t = amended_performanceScore t"
  by (simp add: performanceScore_part0_def calculatePerformanceScore_part0_def orElse_Some
      performance_lookup_part0 amended_performanceScore_def fallback_tokens)
     (simp add: claimed_performanceScore_def token_defs)

lemma performanceScore_analysis_eq:
  assumes "t \<noteq> O_n_squared_part0" "t \<noteq> O_n_squared_analysis"
  shows "performanceScore_analysis t = amended_performanceScore t"
proof (cases "t = []")
  case True
  then show ?thesis
    by (simp add: performanceScore_analysis_def calculatePerformanceScore_analysis_def
        orElse_Some performance_lookup_analysis amended_performanceScore_def fallback_tokens)
       (simp add: claimed_performanceScore_def token_defs)
next
  case False
  with assms show ?thesis
    by (simp add: performanceScore_analysis_def calculatePerformanceScore_analysis_def
        orElse_Some performance_lookup_analysis amended_performanceScore_def)
qed

lemma overallScore_part0_eq: "overallScore_part0 t s = amended_overallScore t s"
  by (simp add: overallScore_part0_def calculateComplexityScore_part0_def orElse_Some
      severity_lookup_part0 amended_overallScore_def amended_severity_def roundedMean_def
      fallback_tokens)

lemma overallScore_analysis_eq:
  assumes "t \<noteq> O_n_squared_part0" "t \<noteq> O_n_squared_analysis"
    and "s \<noteq> O_n_squared_part0" "s \<noteq> O_n_squared_analysis"
  shows "overallScore_analysis t s = amended_overallScore t s"
proof -
  let ?t = "if t = [] then utf16 ''O(n)'' else t"
  let ?s = "if s = [] then utf16 ''O(1)'' else s"
  have t: "?t \<noteq> O_n_squared_part0" "?t \<noteq> O_n_squared_analysis"
    using assms by (simp_all add: fallback_tokens)
  have s: "?s \<noteq> O_n_squared_part0" "?s \<noteq> O_n_squared_analysis"
    using assms by (simp_all add: fallback_tokens)
  show ?thesis
    unfolding overallScore_analysis_def calculateComplexityScore_analysis_def
    by (simp add: orElse_Some severity_lookup_analysis [OF t] severity_lookup_analysis [OF s]
        amended_overallScore_def amended_severity_def roundedMean_def fallback_tokens Let_def)
qed

lemma claimed_severity_range:
  "1 \<le> d \<Longrightarrow> d \<le> 10 \<Longrightarrow> 1 \<le> claimed_severity d t \<and> claimed_severity d t \<le> 10"
  by (simp add: claimed_severity_def)

lemma severity_part0_range:
  assumes "1 \<le> d" "d \<le> 10" "scoreOr (getProp complexityScores_part0 k) d = Number n"
  shows "1 \<le> n \<and> n \<le> 10"
  using assms claimed_severity_range [of d k]
  by (auto simp: severity_lookup_part0 split: if_splits)

lemma severity_analysis_range:
  assumes "1 \<le> d" "d \<le> 10" "scoreOr (getProp complexityScores_analysis k) d = Number n"
  shows "1 \<le> n \<and> n \<le> 10"
proof (cases "k = O_n_squared_part0 \<or> k = O_n_squared_analysis")
  case True
  with assms show ?thesis
    by (auto simp: severity_lookup_analysis_squared)
next
  case False
  with assms claimed_severity_range [of d k] show ?thesis
    by (auto simp: severity_lookup_analysis split: if_splits)
qed

lemma roundedMean_range:
  assumes "roundedMean x y = Number n"
    and "\<And>a. x = Number a \<Longrightarrow> 1 \<le> a \<and> a \<le> 10"
    and "\<And>b. y = Number b \<Longrightarrow> 1 \<le> b \<and> b \<le> 10"
  shows "1 \<le> n \<and> n \<le> 10"
proof -
  from assms(1) obtain a b where ab: "x = Number a" "y = Number b" "n = (a + b + 1) div 2"
    by (auto simp: roundedMean_def Math_round_mean split: jsresult.splits)
  from assms(2) [OF ab(1)] assms(3) [OF ab(2)] ab(3) show ?thesis
    by auto
qed

lemma overallScore_part0_range:
  assumes "overallScore_part0 t s = Number n"
  shows "1 \<le> n \<and> n \<le> 10"
proof (rule roundedMean_range)
  show "roundedMean (scoreOr (getProp complexityScores_part0 (orElse (Some t) (utf16 ''O(n)''))) 5)
          (scoreOr (getProp complexityScores_part0 (orElse (Some s) (utf16 ''O(1)''))) 8)
        = Number n"
    using assms
    by (simp add: overallScore_part0_def calculateComplexityScore_part0_def Let_def)
qed (rule severity_part0_range; simp)+

lemma overallScore_analysis_range:
  assumes "overallScore_analysis t s = Number n"
  shows "1 \<le> n \<and> n \<le> 10"
proof (rule roundedMean_range)
  show "roundedMean
          (scoreOr (getProp complexityScores_analysis (orElse (Some t) (utf16 ''O(n)''))) 5)
          (scoreOr (getProp complexityScores_analysis (orElse (Some s) (utf16 ''O(1)''))) 8)
        = Number n"
    using assms
    by (simp add: overallScore_analysis_def calculateComplexityScore_analysis_def Let_def)
qed (rule severity_analysis_range; simp)+

lemma overallScore_examples:
  "overallScore_part0 (utf16 ''O(1)'') (utf16 ''O(1)'') = Number 10"
  "overallScore_part0 (utf16 ''O(n)'') (utf16 ''O(1)'') = Number 8"
  "overallScore_part0 (utf16 ''O(n^2)'') (utf16 ''O(n^2)'') = Number 2"
  "overallScore_analysis (utf16 ''O(1)'') (utf16 ''O(1)'') = Number 10"
  "overallScore_analysis (utf16 ''O(n)'') (utf16 ''O(1)'') = Number 8"
  "overallScore_analysis (utf16 ''O(n^2)'') (utf16 ''O(n^2)'') = Number 2"
  by (simp_all add: overallScore_part0_eq overallScore_analysis_eq amended_overallScore_def
      amended_severity_def claimed_severity_def Math_round_def token_defs)

subsection \<open>Claim C5: the performance score\<close>

text \<open>
  C5, as stated: \<open>calculatePerformanceScore\<close> returns 50 for every string outside the
  table. It fails at the empty token, which the guard \<open>complexityAnalysis.time || 'O(n)'\<close>
  turns into \<open>O(n)\<close>: both files return 70 there.
\<close>

theorem calculatePerformanceScore_empty_token_counterexample:
  "performanceScore_part0 [] = Number 70
   \<and> performanceScore_analysis [] = Number 70
   \<and> claimed_performanceScore [] = 50"
  by (simp add: performanceScore_part0_eq performanceScore_analysis_eq
      amended_performanceScore_def claimed_performanceScore_def token_defs)

text \<open>
  C5, amended: the performance score of a token is 95 for \<open>O(1)\<close>, 85 for \<open>O(log n)\<close>,
  70 for \<open>O(n)\<close> and for the empty token, 55 for \<open>O(n log n)\<close>, 25 for \<open>O(n^2)\<close>, 5 for
  \<open>O(2^n)\<close>, the inherited member for a token that names a member of
  \<open>Object.prototype\<close>, and 50 for every other string, by exact lookup. In part_000 the
  token \<open>O(n\<close>U+00B2\<open>)\<close> scores 25 as well; what analysis.js does with the two
  spellings of the squared token is left out.
\<close>

theorem calculatePerformanceScore_amended:
  "performanceScore_part0 t = amended_performanceScore t
   \<and> (t \<noteq> O_n_squared_part0 \<and> t \<noteq> O_n_squared_analysis
        \<longrightarrow> performanceScore_analysis t = amended_performanceScore t)"
  by (simp add: performanceScore_part0_eq performanceScore_analysis_eq)

theorem calculatePerformanceScore_amended_witness:
  "utf16 ''O(log n)'' \<noteq> O_n_squared_part0 \<and> utf16 ''O(log n)'' \<noteq> O_n_squared_analysis
   \<and> performanceScore_part0 (utf16 ''O(log n)'') = Number 85
   \<and> performanceScore_analysis (utf16 ''O(log n)'') = Number 85"
proof -
  have h: "utf16 ''O(log n)'' \<noteq> O_n_squared_part0 \<and> utf16 ''O(log n)'' \<noteq> O_n_squared_analysis"
    by (simp add: token_defs)
  have v: "amended_performanceScore (utf16 ''O(log n)'') = Number 85"
    by (simp add: amended_performanceScore_def claimed_performanceScore_def token_defs)
  show ?thesis
    using h v calculatePerformanceScore_amended [of "utf16 ''O(log n)''"] by simp
qed

subsection \<open>Claim C3: the overall complexity score\<close>

text \<open>
  C3, as stated: an unrecognized time token scores 5 and an unrecognized space token 8.
  It fails at the empty tokens, which the guards \<open>|| 'O(n)'\<close> and \<open>|| 'O(1)'\<close> replace
  before the lookup: for the time token \<open>""\<close> and the space token \<open>O(2^n)\<close> the code
  returns round((6 + 1) / 2) = 4 where the claim gives round((5 + 1) / 2) = 3.
\<close>

theorem calculateComplexityScore_empty_token_counterexample:
  "overallScore_part0 [] (utf16 ''O(2^n)'') = Number 4
   \<and> overallScore_analysis [] (utf16 ''O(2^n)'') = Number 4
   \<and> claimed_overallScore [] (utf16 ''O(2^n)'') = 3"
  by (simp add: overallScore_part0_eq overallScore_analysis_eq amended_overallScore_def
      amended_severity_def claimed_overallScore_def claimed_severity_def Math_round_def
      token_defs)

text \<open>
  C3, amended: each token goes through the severity table
  \<open>O(1)\<close> 10, \<open>O(log n)\<close> 8, \<open>O(n)\<close> 6, \<open>O(n log n)\<close> 4, \<open>O(n^2)\<close> 2, \<open>O(2^n)\<close> 1
  (in part_000 also \<open>O(n\<close>U+00B2\<open>)\<close> 2), an empty time token counting as \<open>O(n)\<close> and an
  empty space token as \<open>O(1)\<close>, any other time token scoring 5 and any other space token 8;
  the result is the mean of the two, rounded half up, unless a token names a member of
  \<open>Object.prototype\<close>, when it is \<open>NaN\<close>. Every number returned lies in 1..10, and the
  three examples of the claim hold in both files. What analysis.js does with the two
  spellings of the squared token is left out (but for the bound, which holds there too).
\<close>

theorem calculateComplexityScore_amended:
  "overallScore_part0 t s = amended_overallScore t s
   \<and> (t \<noteq> O_n_squared_part0 \<and> t \<noteq> O_n_squared_analysis
       \<and> s \<noteq> O_n_squared_part0 \<and> s \<noteq> O_n_squared_analysis
        \<longrightarrow> overallScore_analysis t s = amended_overallScore t s)
   \<and> (\<forall>n. overallScore_part0 t s = Number n \<or> overallScore_analysis t s = Number n
        \<longrightarrow> 1 \<le> n \<and> n \<le> 10)
   \<and> overallScore_part0 (utf16 ''O(1)'') (utf16 ''O(1)'') = Number 10
   \<and> overallScore_part0 (utf16 ''O(n)'') (utf16 ''O(1)'') = Number 8
   \<and> overallScore_part0 (utf16 ''O(n^2)'') (utf16 ''O(n^2)'') = Number 2
   \<and> overallScore_analysis (utf16 ''O(1)'') (utf16 ''O(1)'') = Number 10
   \<and> overallScore_analysis (utf16 ''O(n)'') (utf16 ''O(1)'') = Number 8
   \<and> overallScore_analysis (utf16 ''O(n^2)'') (utf16 ''O(n^2)'') = Number 2"
  using overallScore_part0_eq [of t s] overallScore_analysis_eq [of t s]
    overallScore_part0_range [of t s] overallScore_analysis_range [of t s]
  by (simp only: overallScore_examples) blast

theorem calculateComplexityScore_amended_witness:
  "utf16 ''O(log n)'' \<noteq> O_n_squared_part0 \<and> utf16 ''O(log n)'' \<noteq> O_n_squared_analysis
   \<and> utf16 ''O(2^n)'' \<noteq> O_n_squared_part0 \<and> utf16 ''O(2^n)'' \<noteq> O_n_squared_analysis
   \<and> overallScore_analysis (utf16 ''O(log n)'') (utf16 ''O(2^n)'') = Number 5
   \<and> overallScore_part0 (utf16 ''O(log n)'') (utf16 ''O(2^n)'') = Number 5
   \<and> (1::int) \<le> 5 \<and> (5::int) \<le> 10"
proof -
  have h: "utf16 ''O(log n)'' \<noteq> O_n_squared_part0 \<and> utf16 ''O(log n)'' \<noteq> O_n_squared_analysis
    \<and> utf16 ''O(2^n)'' \<noteq> O_n_squared_part0 \<and> utf16 ''O(2^n)'' \<noteq> O_n_squared_analysis"
    by (simp add: token_defs)
  have v: "amended_overallScore (utf16 ''O(log n)'') (utf16 ''O(2^n)'') = Number 5"
    by (simp add: amended_overallScore_def amended_severity_def claimed_severity_def
        Math_round_def token_defs)
  show ?thesis
    using h v calculateComplexityScore_amended [of "utf16 ''O(log n)''" "utf16 ''O(2^n)''"]
    by simp
qed

subsection \<open>Claim C7: the two copies of the scoring functions\<close>

text \<open>
  C7: the two files' \<open>calculatePerformanceScore\<close> and \<open>calculateComplexityScore\<close>
  return equal numbers on every input. The code breaks it at the token \<open>O(n\<close>U+00B2\<open>)\<close>:
  the key of analysis.js holds U+00AC U+2264 where part_000 holds U+00B2, so part_000
  finds 25 and 2 where analysis.js falls to its defaults.
\<close>

theorem scoring_copies_differ_at_squared_token:
  "calculatePerformanceScore_part0 (Some \<lparr>time = Some O_n_squared_part0, space = None\<rparr>)
     = Number 25
   \<and> calculatePerformanceScore_analysis (Some \<lparr>time = Some O_n_squared_part0, space = None\<rparr>)
     = Number 50
   \<and> calculateComplexityScore_part0
       (Some \<lparr>time = Some O_n_squared_part0, space = Some O_n_squared_part0\<rparr>) = Number 2
   \<and> calculateComplexityScore_analysis
       (Some \<lparr>time = Some O_n_squared_part0, space = Some O_n_squared_part0\<rparr>) = Number 7"
  by (simp add: calculatePerformanceScore_part0_def calculatePerformanceScore_analysis_def
      calculateComplexityScore_part0_def calculateComplexityScore_analysis_def
      performanceScores_part0_def performanceScores_analysis_def
      complexityScores_part0_def complexityScores_analysis_def
      orElse_def scoreOr_def getProp_def roundedMean_def Math_round_def token_defs)

text \<open>Away from the two spellings of the squared token the copies agree.\<close>

lemma scoring_copies_agree_elsewhere:
  assumes "t \<noteq> O_n_squared_part0" "t \<noteq> O_n_squared_analysis"
    and "s \<noteq> O_n_squared_part0" "s \<noteq> O_n_squared_analysis"
  shows "performanceScore_analysis t = performanceScore_part0 t"
    and "overallScore_analysis t s = overallScore_part0 t s"
    and "calculatePerformanceScore_analysis None = calculatePerformanceScore_part0 None"
    and "calculateComplexityScore_analysis None = calculateComplexityScore_part0 None"
  using assms
  by (simp_all add: performanceScore_part0_eq performanceScore_analysis_eq
      overallScore_part0_eq overallScore_analysis_eq
      calculatePerformanceScore_part0_def calculatePerformanceScore_analysis_def
      calculateComplexityScore_part0_def calculateComplexityScore_analysis_def)

section \<open>Properties of the string operations\<close>

lemma startsWith_prefix: "startsWith s p \<longleftrightarrow> prefix p s"
  by (induction s p rule: startsWith.induct) auto

lemma includes_js_sublist: "includes_js s p \<longleftrightarrow> sublist p s"
  by (induction s) (auto simp: startsWith_prefix sublist_Cons_right)

lemma includes_js_suffix_of_pattern: "includes_js s (a @ b) \<Longrightarrow> includes_js s b"
  unfolding includes_js_sublist
  by (meson sublist_appendI sublist_order.order_trans sublist_order.order_refl suffix_def
      suffix_imp_sublist)

section \<open>Properties of the colour mapping\<close>

lemma includes_n_log_n:
  "includes_js c (utf16 ''n log n'') \<Longrightarrow> includes_js c (utf16 ''log n'')"
proof -
  have "utf16 ''n log n'' = utf16 ''n '' @ utf16 ''log n''"
    by (simp add: utf16_def)
  then show "includes_js c (utf16 ''n log n'') \<Longrightarrow> includes_js c (utf16 ''log n'')"
    using includes_js_suffix_of_pattern by metis
qed

text \<open>
  Whatever contains \<open>n log n\<close> contains \<open>log n\<close>, which is tested first: the third
  branch is never taken, and its colour is never returned.
\<close>

lemma n_log_n_branch_unreachable:
  "getComplexityColor_part0 v \<noteq> Inr (utf16 ''#FF8800'')"
  "getComplexityColor_analysis v \<noteq> Inr (utf16 ''#FFA726'')"
proof -
  show "getComplexityColor_part0 v \<noteq> Inr (utf16 ''#FF8800'')"
  proof (cases "String_of v")
    case (Inl e)
    then show ?thesis
      by (simp add: getComplexityColor_part0_def)
  next
    case (Inr s)
    then show ?thesis
      using includes_n_log_n [of "toLowerCase s"]
      by (auto simp: getComplexityColor_part0_def Let_def utf16_def)
  qed
  show "getComplexityColor_analysis v \<noteq> Inr (utf16 ''#FFA726'')"
  proof (cases "String_of v")
    case (Inl e)
    then show ?thesis
      by (simp add: getComplexityColor_analysis_def)
  next
    case (Inr s)
    then show ?thesis
      using includes_n_log_n [of "toLowerCase s"]
      by (auto simp: getComplexityColor_analysis_def Let_def utf16_def)
  qed
qed

lemma getComplexityColor_Str:
  "getComplexityColor_part0 (Str s) = Inr (claimed_color colors_part0 s)"
  by (simp add: getComplexityColor_part0_def claimed_color_def claimed_branch_def Let_def
      includes_js_sublist colors_part0_def)







subsection \<open>The coercion to a string\<close>














subsection \<open>Claim C1: precedence of the substring tests\<close>

text \<open>
  C1: for \<open>O(n log n)\<close> the colour is that of the \<open>n log n\<close> branch, and for \<open>O(2^n)\<close>
  that of the exponential branch. The second half holds. The first does not: the test
  for \<open>log n\<close> stands before the test for \<open>n log n\<close>, so \<open>O(n log n)\<close> gets the colour
  of the \<open>log n\<close> branch (\<open>#33b5e5\<close> in part_000, \<open>#40E0D0\<close> in analysis.js) and not
  the orange of the \<open>n log n\<close> branch (\<open>#FF8800\<close>, \<open>#FFA726\<close>).
\<close>

theorem getComplexityColor_n_log_n_gets_log_n_color:
  "getComplexityColor_part0 (Str (utf16 ''O(n log n)'')) = Inr (utf16 ''#33b5e5'')
   \<and> getComplexityColor_part0 (Str (utf16 ''O(n log n)'')) \<noteq> Inr (utf16 ''#FF8800'')
   \<and> getComplexityColor_analysis (Str (utf16 ''O(n log n)'')) = Inr (utf16 ''#40E0D0'')
   \<and> getComplexityColor_analysis (Str (utf16 ''O(n log n)'')) \<noteq> Inr (utf16 ''#FFA726'')
   \<and> getComplexityColor_part0 (Str (utf16 ''O(2^n)'')) = Inr (utf16 ''#FF1744'')
   \<and> getComplexityColor_analysis (Str (utf16 ''O(2^n)'')) = Inr (utf16 ''#FF1744'')"
  by (simp add: getComplexityColor_part0_def getComplexityColor_analysis_def Let_def
      toLowerCase_def utf16_def)

subsection \<open>Claim C10: the colour mapping and its coercion\<close>




section \<open>Properties of the response validation\<close>

lemma missingOf_object:
  "isObject v \<Longrightarrow> missingOf ps v = Inr (filter (\<lambda>p. hasProperty p v \<noteq> Inr True) ps)"
  by (induction ps) (cases v; auto)+

lemma missingOf_primitive: "\<not> isObject v \<Longrightarrow> missingOf required v = Inl TypeError"
  by (cases v) (simp_all add: required_def)

lemma isObject_truthy: "isObject v \<Longrightarrow> truthy v"
  by (cases v) auto

lemma isAbsent_not_truthy: "isAbsent v \<Longrightarrow> \<not> truthy v"
  by (auto simp: isAbsent_def)

lemma truthy_field_truthy: "truthy (getField result name) \<Longrightarrow> truthy result"
  by (cases result) auto

lemma validateResponse_cases:
  "validateResponse result =
     (if \<not> truthy result \<or> \<not> truthy (getField result (utf16 ''results'')) then Inr (False, [])
      else if isObject (getField result (utf16 ''results''))
      then Inr (True, filter (\<lambda>p. hasProperty p (getField result (utf16 ''results'')) \<noteq> Inr True)
                        required)
      else Inl TypeError)"
  by (simp add: validateResponse_def missingOf_object missingOf_primitive)

lemma validateResponse_results_object:
  "validateResponse (Obj [(utf16 ''results'', Obj fs)])
     = Inr (True, filter (\<lambda>p. p \<notin> fst ` set fs) required)"
  by (simp add: validateResponse_def missingOf_object)

lemma checkResponse_rejected:
  "validateResponse result = Inr (False, m) \<Longrightarrow>
   checkResponse result = Inl (Error (utf16 ''Invalid response format from server''))"
  by (simp add: checkResponse_def)

lemma checkResponse_thrown:
  "validateResponse result = Inl e \<Longrightarrow> checkResponse result = Inl e"
  by (simp add: checkResponse_def)

lemma checkResponse_proceeds:
  assumes "isObject (getField result (utf16 ''results''))"
    and "getField (getField result (utf16 ''results'')) (utf16 ''success'') \<noteq> Bool False"
  shows "checkResponse result = Inr (getField result (utf16 ''results''))"
proof -
  have "truthy (getField result (utf16 ''results''))"
    using assms(1) by (rule isObject_truthy)
  moreover from this have "truthy result"
    by (rule truthy_field_truthy)
  ultimately show ?thesis
    using assms by (simp add: checkResponse_def validateResponse_cases)
qed

lemma checkResponse_server_failure:
  assumes "isObject (getField result (utf16 ''results''))"
    and "getField (getField result (utf16 ''results'')) (utf16 ''success'') = Bool False"
  shows "\<exists>e. checkResponse result = Inl e"
proof -
  have "truthy (getField result (utf16 ''results''))"
    using assms(1) by (rule isObject_truthy)
  moreover from this have "truthy result"
    by (rule truthy_field_truthy)
  ultimately show ?thesis
    using assms by (auto simp: checkResponse_def validateResponse_cases Let_def split: sum.splits)
qed

subsection \<open>Claim C8: what validateResponse rejects\<close>

text \<open>
  C8, as stated: \<open>validateResponse\<close> returns false exactly when the response or its
  \<open>results\<close> is absent, and true whenever \<open>results\<close> is present. It fails for a
  \<open>results\<close> that is present and not an object: with \<open>results: 0\<close> the guard
  \<open>!result.results\<close> rejects the response, and with \<open>results: "x"\<close> the operator \<open>in\<close>
  throws a \<open>TypeError\<close> where the claim has the function return true.
\<close>

theorem validateResponse_primitive_results_counterexample:
  "getField (Obj [(utf16 ''results'', Num True (utf16 ''0''))]) (utf16 ''results'')
     = Num True (utf16 ''0'')
   \<and> \<not> isAbsent (Num True (utf16 ''0''))
   \<and> validateResponse (Obj [(utf16 ''results'', Num True (utf16 ''0''))]) = Inr (False, [])
   \<and> \<not> isAbsent (Str (utf16 ''x''))
   \<and> validateResponse (Obj [(utf16 ''results'', Str (utf16 ''x''))]) = Inl TypeError"
  by (simp add: validateResponse_def isAbsent_def required_def utf16_def)

text \<open>
  C8, amended: \<open>validateResponse\<close> returns false exactly when the response or its
  \<open>results\<close> is falsy (absent, \<open>null\<close>, or one of \<open>false\<close>, \<open>0\<close> and the empty string), and
  the cycle is then aborted with the format error. When \<open>results\<close> is an object it
  returns true whichever of the four fields are missing, which it only logs, and the cycle
  goes on unless the server has reported a failure. When \<open>results\<close> is a truthy value that
  is not an object, the operator \<open>in\<close> throws a \<open>TypeError\<close>, which aborts the cycle in
  place of the format error.
\<close>

theorem validateResponse_amended:
  "(validateResponse result = Inr (False, [])
      \<longleftrightarrow> \<not> truthy result \<or> \<not> truthy (getField result (utf16 ''results'')))
   \<and> (isAbsent result \<or> isAbsent (getField result (utf16 ''results''))
        \<longrightarrow> validateResponse result = Inr (False, []))
   \<and> (validateResponse result = Inr (False, [])
        \<longrightarrow> checkResponse result
              = Inl (Error (utf16 ''Invalid response format from server'')))
   \<and> (isObject (getField result (utf16 ''results''))
        \<longrightarrow> validateResponse result
              = Inr (True, filter (\<lambda>p. hasProperty p (getField result (utf16 ''results''))
                                        \<noteq> Inr True) required))
   \<and> (isObject (getField result (utf16 ''results''))
       \<and> getField (getField result (utf16 ''results'')) (utf16 ''success'') \<noteq> Bool False
        \<longrightarrow> checkResponse result = Inr (getField result (utf16 ''results'')))
   \<and> (isObject (getField result (utf16 ''results''))
       \<and> getField (getField result (utf16 ''results'')) (utf16 ''success'') = Bool False
        \<longrightarrow> (\<exists>e. checkResponse result = Inl e))
   \<and> (truthy (getField result (utf16 ''results''))
       \<and> \<not> isObject (getField result (utf16 ''results''))
        \<longrightarrow> validateResponse result = Inl TypeError \<and> checkResponse result = Inl TypeError)
   \<and> (\<forall>fs. validateResponse (Obj [(utf16 ''results'', Obj fs)])
              = Inr (True, filter (\<lambda>p. p \<notin> fst ` set fs) required))
   \<and> validateResponse (Obj [(utf16 ''results'', Obj [])]) = Inr (True, required)"
proof -
  let ?R = "getField result (utf16 ''results'')"
  have a: "validateResponse result = Inr (False, []) \<longleftrightarrow> \<not> truthy result \<or> \<not> truthy ?R"
    by (simp add: validateResponse_cases)
  have b: "isAbsent result \<or> isAbsent ?R \<Longrightarrow> validateResponse result = Inr (False, [])"
    unfolding a using isAbsent_not_truthy by blast
  have c: "isObject ?R \<Longrightarrow> validateResponse result
             = Inr (True, filter (\<lambda>p. hasProperty p ?R \<noteq> Inr True) required)"
    using isObject_truthy [of ?R] truthy_field_truthy [of result]
    by (simp add: validateResponse_cases)
  have d: "truthy ?R \<and> \<not> isObject ?R
             \<Longrightarrow> validateResponse result = Inl TypeError \<and> checkResponse result = Inl TypeError"
    using truthy_field_truthy [of result "utf16 ''results''"]
    by (simp add: validateResponse_cases checkResponse_thrown)
  have e: "validateResponse (Obj [(utf16 ''results'', Obj [])]) = Inr (True, required)"
    by (simp add: validateResponse_results_object)
  show ?thesis
    using a b c d e checkResponse_rejected [of result "[]"] checkResponse_proceeds [of result]
      checkResponse_server_failure [of result] validateResponse_results_object
    by blast
qed

theorem validateResponse_amended_witness:
  "validateResponse (Obj [(utf16 ''results'', Obj [(utf16 ''documentation'', Str (utf16 ''d''))])])
       = Inr (True, map utf16 [''complexity_analysis'', ''refactoring_suggestions'',
                               ''improvement_suggestions''])
   \<and> checkResponse (Obj [(utf16 ''results'', Obj [(utf16 ''documentation'', Str (utf16 ''d''))])])
       = Inr (Obj [(utf16 ''documentation'', Str (utf16 ''d''))])
   \<and> validateResponse (Obj [(utf16 ''success'', Bool True)]) = Inr (False, [])
   \<and> checkResponse (Obj [(utf16 ''success'', Bool True)])
       = Inl (Error (utf16 ''Invalid response format from server''))
   \<and> checkResponse (Obj [(utf16 ''results'', Bool True)]) = Inl TypeError"
proof -
  let ?present = "Obj [(utf16 ''results'', Obj [(utf16 ''documentation'', Str (utf16 ''d''))])]"
  let ?absent = "Obj [(utf16 ''success'', Bool True)]"
  let ?primitive = "Obj [(utf16 ''results'', Bool True)]"
  have p: "isObject (getField ?present (utf16 ''results''))"
    "getField (getField ?present (utf16 ''results'')) (utf16 ''success'') \<noteq> Bool False"
    "getField ?present (utf16 ''results'') = Obj [(utf16 ''documentation'', Str (utf16 ''d''))]"
    by (simp_all add: utf16_def)
  have a: "isAbsent ?absent \<or> isAbsent (getField ?absent (utf16 ''results''))"
    by (simp add: isAbsent_def utf16_def)
  have q: "truthy (getField ?primitive (utf16 ''results''))
           \<and> \<not> isObject (getField ?primitive (utf16 ''results''))"
    by simp
  have m: "filter (\<lambda>p. hasProperty p (getField ?present (utf16 ''results'')) \<noteq> Inr True) required
           = map utf16 [''complexity_analysis'', ''refactoring_suggestions'',
                        ''improvement_suggestions'']"
    by (simp add: required_def utf16_def)
  show ?thesis
    using p a q m validateResponse_amended [of ?present] validateResponse_amended [of ?absent]
      validateResponse_amended [of ?primitive]
    by auto
qed


section \<open>Properties of the regular-expression matcher\<close>

lemmas re_defs =
  seqs_def lit_def lit_i_def chr_def chr_i_def upperAscii_def isDigit_def isWord_def
  isWhiteSpace_def utf16_def




subsection \<open>Repetition of a class\<close>

lemma rests_Rep_none: "length (takeWhile p s) < n \<Longrightarrow> rests (Rep n p) s = []"
  by simp

lemma rests_Rep_first:
  assumes "n \<le> length (takeWhile p s)"
  shows "rests (Rep n p) s
     = dropWhile p s # map (\<lambda>k. drop k s) (rev [n ..< length (takeWhile p s)])"
proof -
  have "[n ..< Suc (length (takeWhile p s))] = [n ..< length (takeWhile p s)] @ [length (takeWhile p s)]"
    using assms by simp
  then show ?thesis
    by (simp add: dropWhile_eq_drop)
qed

lemma rests_Rep_empty_iff: "rests (Rep n p) s = [] \<longleftrightarrow> length (takeWhile p s) < n"
  by auto

subsection \<open>Splitting at newlines\<close>

lemma split_from_newlines_Nil: "split_from newlines cur [] = [rev cur]"
  by (simp add: split_from.simps)

lemma split_from_newlines_Cons:
  "split_from newlines cur (c # cs) =
     (if c = 10 then rev cur # split_from newlines [] (dropWhile (\<lambda>c. c = 10) cs)
      else split_from newlines (c # cur) cs)"
proof (cases "c = 10")
  case True
  have "rests newlines (c # cs)
     = dropWhile (\<lambda>c. c = 10) (c # cs)
       # map (\<lambda>k. drop k (c # cs)) (rev [1 ..< length (takeWhile (\<lambda>c. c = 10) (c # cs))])"
    unfolding newlines_def using True by (intro rests_Rep_first) simp
  then obtain es where es: "rests newlines (c # cs) = dropWhile (\<lambda>c. c = 10) cs # es"
    using True by simp
  have "length (dropWhile (\<lambda>c. c = 10) cs) < length (c # cs)"
    by (simp add: length_dropWhile_le less_Suc_eq_le)
  then have "split_from newlines cur (c # cs)
     = rev cur # split_from newlines [] (dropWhile (\<lambda>c. c = 10) cs)"
    by (subst split_from.simps) (simp add: es)
  with True show ?thesis
    by simp
next
  case False
  then have "rests newlines (c # cs) = []"
    by (simp add: newlines_def)
  then have "split_from newlines cur (c # cs) = split_from newlines (c # cur) cs"
    by (subst split_from.simps) simp
  with False show ?thesis
    by simp
qed

lemma splitLines_not_Nil: "splitLines s \<noteq> []"
  by (induction s) (auto split: list.splits)

lemma splitLines_skip_newlines:
  "filter (\<lambda>l. l \<noteq> []) (splitLines (dropWhile (\<lambda>c. c = 10) cs))
     = filter (\<lambda>l. l \<noteq> []) (splitLines cs)"
  by (induction cs) auto

lemma split_from_newlines_nonempty:
  "filter (\<lambda>l. l \<noteq> []) (split_from newlines cur s)
     = filter (\<lambda>l. l \<noteq> []) ((rev cur @ hd (splitLines s)) # tl (splitLines s))"
proof (induction "length s" arbitrary: s cur rule: less_induct)
  case less
  show ?case
  proof (cases s)
    case Nil
    then show ?thesis
      by (simp add: split_from_newlines_Nil)
  next
    case (Cons c cs)
    show ?thesis
    proof (cases "c = 10")
      case True
      let ?d = "dropWhile (\<lambda>c. c = 10) cs"
      have "length ?d < length s"
        using Cons by (simp add: length_dropWhile_le less_Suc_eq_le)
      from less [OF this, of "[]"]
      have "filter (\<lambda>l. l \<noteq> []) (split_from newlines [] ?d)
              = filter (\<lambda>l. l \<noteq> []) (splitLines ?d)"
        using splitLines_not_Nil [of ?d] by simp
      then show ?thesis
        using True Cons by (simp add: split_from_newlines_Cons splitLines_skip_newlines)
    next
      case False
      have "length cs < length s"
        using Cons by simp
      from less [OF this, of "c # cur"] False Cons splitLines_not_Nil [of cs] show ?thesis
        by (cases "splitLines cs") (simp_all add: split_from_newlines_Cons)
    qed
  qed
qed

lemma split_newlines_nonempty:
  "filter (\<lambda>l. l \<noteq> []) (split s newlines) = filter (\<lambda>l. l \<noteq> []) (splitLines s)"
proof (cases "s = []")
  case True
  then show ?thesis
    by (simp add: split_def newlines_def)
next
  case False
  then show ?thesis
    using split_from_newlines_nonempty [of "[]" s] splitLines_not_Nil [of s]
    by (simp add: split_def)
qed

lemma trim_Nil: "trim [] = []"
  by (simp add: trim_def)

lemma filter_map_trim_nonempty:
  "filter (\<lambda>l. l \<noteq> [] \<and> P l) (map trim xs)
     = filter (\<lambda>l. l \<noteq> [] \<and> P l) (map trim (filter (\<lambda>l. l \<noteq> []) xs))"
  by (induction xs) (auto simp: trim_Nil)

subsection \<open>Literals\<close>

lemma rests_Seq_chr_i:
  "rests (Seq (chr_i x) r) s =
     (case s of [] \<Rightarrow> [] | c # cs \<Rightarrow> if upperAscii c = upperAscii x then rests r cs else [])"
  by (simp add: chr_i_def split: list.splits)

lemma rests_lit_i:
  "rests (lit_i w) s = (if startsWith_i s w then [drop (length w) s] else [])"
proof (induction w arbitrary: s)
  case Nil
  then show ?case
    by (simp add: lit_i_def seqs_def startsWith_i_def utf16_def)
next
  case (Cons x w)
  have unfold: "lit_i (x # w) = Seq (chr_i (of_char x)) (lit_i w)"
    by (simp add: lit_i_def seqs_def)
  show ?case
  proof (cases s)
    case Nil
    then show ?thesis
      by (simp add: unfold chr_i_def startsWith_i_def utf16_def)
  next
    case (Cons c cs)
    with Cons.IH [of cs] show ?thesis
      by (simp add: unfold chr_i_def startsWith_i_def utf16_def)
  qed
qed

lemma rests_Seq_chr:
  "rests (Seq (chr x) r) s =
     (case s of [] \<Rightarrow> [] | c # cs \<Rightarrow> if c = x then rests r cs else [])"
  by (simp add: chr_def split: list.splits)

lemma rests_lit:
  "rests (lit w) s = (if startsWith s (utf16 w) then [drop (length w) s] else [])"
proof (induction w arbitrary: s)
  case Nil
  then show ?case
    by (simp add: lit_def seqs_def utf16_def)
next
  case (Cons x w)
  have unfold: "lit (x # w) = Seq (chr (of_char x)) (lit w)"
    by (simp add: lit_def seqs_def)
  show ?case
  proof (cases s)
    case Nil
    then show ?thesis
      by (simp add: unfold chr_def utf16_def)
  next
    case (Cons c cs)
    with Cons.IH [of cs] show ?thesis
      by (simp add: unfold chr_def utf16_def)
  qed
qed

subsection \<open>Header and separator lines\<close>

lemma startsWith_replicate:
  "startsWith s (replicate n x) \<longleftrightarrow> n \<le> length (takeWhile (\<lambda>c. c = x) s)"
proof (induction n arbitrary: s)
  case 0
  then show ?case by simp
next
  case (Suc n)
  then show ?case by (cases s) auto
qed

lemma startsWith_i_longer:
  assumes "prefix (utf16 v) (utf16 w)" "startsWith_i s w"
  shows "startsWith_i s v"
proof -
  from assms(1) have "prefix (map upperAscii (utf16 v)) (map upperAscii (utf16 w))"
    by (rule map_mono_prefix)
  with assms(2) show ?thesis
    unfolding startsWith_i_def startsWith_prefix by (meson prefix_order.trans)
qed

lemma test_anchored_headerPattern: "test_anchored headerPattern line \<longleftrightarrow> isHeaderLine line"
proof -
  have three: "\<And>x::nat. replicate 3 x = [x, x, x]"
    by (simp add: numeral_3_eq_3)
  have eqs: "utf16 ''==='' = [61, 61, 61]" "utf16 ''---'' = [45, 45, 45]"
    by (simp_all add: utf16_def)
  have a: "rests (Rep 3 (\<lambda>c. c = 61)) line \<noteq> [] \<longleftrightarrow> startsWith line (utf16 ''==='')"
    using startsWith_replicate [of line 3 61] unfolding rests_Rep_empty_iff eqs three
    by auto
  have b: "rests (Rep 3 (\<lambda>c. c = 45)) line \<noteq> [] \<longleftrightarrow> startsWith line (utf16 ''---'')"
    using startsWith_replicate [of line 3 45] unfolding rests_Rep_empty_iff eqs three
    by auto
  have c: "rests (Seq (lit_i ''SUGGESTION'') (Opt (chr_i 83))) line \<noteq> []
             \<longleftrightarrow> startsWith_i line ''SUGGESTION''"
    by (simp add: rests_lit_i)
  have d: "startsWith_i line ''SUGGESTIONS'' \<Longrightarrow> startsWith_i line ''SUGGESTION''"
    by (rule startsWith_i_longer [of "''SUGGESTION''" "''SUGGESTIONS''"]) (simp_all add: utf16_def)
  have "test_anchored headerPattern line \<longleftrightarrow>
          rests (lit_i ''REFACTORING'') line \<noteq> []
          \<or> rests (Seq (lit_i ''SUGGESTION'') (Opt (chr_i 83))) line \<noteq> []
          \<or> rests (Rep 3 (\<lambda>c. c = 61)) line \<noteq> [] \<or> rests (Rep 3 (\<lambda>c. c = 45)) line \<noteq> []"
    unfolding test_anchored_def headerPattern_def by (simp only: rests.simps append_is_Nil_conv) blast
  also have "\<dots> \<longleftrightarrow> isHeaderLine line"
    unfolding a b c isHeaderLine_def using d by (auto simp: rests_lit_i)
  finally show ?thesis .
qed

subsection \<open>Stripping the bullets\<close>

lemma replace_anchored_Rep1: "replace_anchored (Rep 1 p) line = dropWhile p line"
proof (cases "1 \<le> length (takeWhile p line)")
  case True
  then show ?thesis
    unfolding replace_anchored_def by (subst rests_Rep_first) simp_all
next
  case False
  then have "takeWhile p line = []"
    by (cases "takeWhile p line") auto
  then have "dropWhile p line = line"
    by (metis takeWhile_dropWhile_id append_Nil)
  with False show ?thesis
    unfolding replace_anchored_def by (simp add: rests_Rep_none)
qed

lemma trim_trimmed: "trimmed (trim s)"
proof -
  let ?a = "dropWhile isWhiteSpace s"
  let ?b = "dropWhile isWhiteSpace (rev ?a)"
  show ?thesis
  proof (cases "?b = []")
    case True
    then show ?thesis by (simp add: trimmed_def trim_def)
  next
    case False
    then have hb: "\<not> isWhiteSpace (hd ?b)"
      by (rule hd_dropWhile)
    have "?a \<noteq> []"
    proof
      assume "?a = []"
      then have "?b = []" by (simp only: rev.simps dropWhile.simps)
      with False show False ..
    qed
    then have ha: "\<not> isWhiteSpace (hd ?a)"
      by (rule hd_dropWhile)
    have "suffix ?b (rev ?a)"
      by (rule suffix_dropWhile)
    then obtain p where "rev ?a = p @ ?b"
      by (auto simp: suffix_def)
    then have "?a = rev ?b @ rev p"
      by (metis rev_append rev_rev_ident)
    with False have "hd (rev ?b) = hd ?a"
      by (metis hd_append2 rev_is_Nil_conv)
    with ha hb False show ?thesis
      by (simp add: trimmed_def trim_def hd_rev last_rev)
  qed
qed

lemma trim_of_trimmed: "trimmed l \<Longrightarrow> trim l = l"
proof (cases "l = []")
  case True
  then show ?thesis by (simp add: trim_def)
next
  case False
  assume "trimmed l"
  with False have h: "\<not> isWhiteSpace (hd l)" and t: "\<not> isWhiteSpace (last l)"
    by (auto simp: trimmed_def)
  from h False have "dropWhile isWhiteSpace l = l"
    by (cases l) auto
  moreover from t False have "dropWhile isWhiteSpace (rev l) = rev l"
    by (cases "rev l") (auto simp: last_rev [symmetric] hd_rev)
  ultimately show ?thesis
    by (simp add: trim_def)
qed

lemma trimmed_dropWhile:
  assumes "trimmed l" "\<And>c. isWhiteSpace c \<Longrightarrow> p c"
  shows "trimmed (dropWhile p l)"
proof (cases "dropWhile p l = []")
  case True
  then show ?thesis by (simp add: trimmed_def)
next
  case False
  then have "\<not> p (hd (dropWhile p l))"
    by (rule hd_dropWhile)
  with assms(2) have h: "\<not> isWhiteSpace (hd (dropWhile p l))"
    by blast
  from False have "l \<noteq> []" by auto
  have "last (dropWhile p l) = last l"
    using False by (metis last_appendR takeWhile_dropWhile_id)
  with assms(1) \<open>l \<noteq> []\<close> h False show ?thesis
    by (simp add: trimmed_def)
qed

section \<open>Properties of the function count\<close>




lemma countFunctions_example:
  "countFunctions (utf16 ''function foo() { return 1; }'') = 2"
  by (simp add: countFunctions_def functionPatterns_def match_g_def matchAll.simps re_defs)

subsection \<open>Claim C9: the function count\<close>


section \<open>Properties of the suggestion extraction\<close>

lemma cleanedLines_survivingLines: "cleanedLines text = survivingLines text"
proof -
  let ?P = "\<lambda>l. \<not> isHeaderLine l"
  have "cleanedLines text
          = filter (\<lambda>l. l \<noteq> [] \<and> ?P l) (map trim (split text newlines))"
    by (simp add: cleanedLines_def test_anchored_headerPattern conj_commute)
  also have "\<dots> = filter (\<lambda>l. l \<noteq> [] \<and> ?P l)
                     (map trim (filter (\<lambda>l. l \<noteq> []) (split text newlines)))"
    by (rule filter_map_trim_nonempty)
  also have "\<dots> = filter (\<lambda>l. l \<noteq> [] \<and> ?P l)
                     (map trim (filter (\<lambda>l. l \<noteq> []) (splitLines text)))"
    by (simp only: split_newlines_nonempty)
  also have "\<dots> = filter (\<lambda>l. l \<noteq> [] \<and> ?P l) (map trim (splitLines text))"
    by (rule filter_map_trim_nonempty [symmetric])
  finally show ?thesis
    by (simp add: survivingLines_def)
qed

lemma survivingLines_trimmed: "line \<in> set (survivingLines text) \<Longrightarrow> trimmed line"
  by (auto simp: survivingLines_def trim_trimmed)

lemma cleanLine_dropWhile:
  assumes "trimmed line" "\<And>c. isWhiteSpace c \<Longrightarrow> p c"
  shows "trim (replace_anchored (Rep 1 p) line) = dropWhile p line"
  unfolding replace_anchored_Rep1
  by (rule trim_of_trimmed) (rule trimmed_dropWhile [OF assms])

lemma in_enumerate_snd: "(i, x) \<in> set (enumerate n xs) \<Longrightarrow> x \<in> set xs"
  by (auto simp: in_set_enumerate_eq)

lemma cleanLine_part0:
  "line \<in> set (survivingLines text) \<Longrightarrow>
   trim (replace_anchored (Rep 1 bulletClass_part0) line) = dropWhile bulletClass_part0 line"
proof (rule cleanLine_dropWhile)
  show "line \<in> set (survivingLines text) \<Longrightarrow> trimmed line"
    by (rule survivingLines_trimmed)
  show "\<And>c. isWhiteSpace c \<Longrightarrow> bulletClass_part0 c"
    by (simp add: bulletClass_part0_def)
qed

lemma cleanLine_analysis:
  "line \<in> set (survivingLines text) \<Longrightarrow>
   trim (replace_anchored (Rep 1 bulletClass_analysis) line)
     = dropWhile bulletClass_analysis line"
proof (rule cleanLine_dropWhile)
  show "line \<in> set (survivingLines text) \<Longrightarrow> trimmed line"
    by (rule survivingLines_trimmed)
  show "\<And>c. isWhiteSpace c \<Longrightarrow> bulletClass_analysis c"
    by (simp add: bulletClass_analysis_def)
qed

lemma parse_part0_Str:
  "parseRefactoringSuggestionsFromAgent_part0 (Str text) =
     Inr (if text = [] \<or> includes_js text noSuggestionsMarker then []
          else map (\<lambda>(index, line).
                  \<lparr>id_s = index,
                   title = utf16 ''Refactoring Suggestion '' @ showNat (index + 1),
                   description = dropWhile bulletClass_part0 line,
                   priority = (if index < 2 then utf16 ''High'' else utf16 ''Medium''),
                   category = utf16 ''Refactoring'',
                   color = utf16 ''electric-blue''\<rparr>)
                (enumerate 0 (survivingLines text)))"
  by (auto simp: parseRefactoringSuggestionsFromAgent_part0_def cleanedLines_survivingLines Let_def
      cleanLine_part0 [unfolded One_nat_def] dest!: in_enumerate_snd)

lemma sequence_sum_map_Inr: "sequence_sum (map (\<lambda>x. Inr (f x)) xs) = Inr (map f xs)"
  by (induction xs) auto

lemma color_of_O_1:
  "getComplexityColor_analysis (Str (utf16 ''O(1)'')) = Inr (utf16 ''#2ED573'')"
  by (simp add: getComplexityColor_analysis_def Let_def toLowerCase_def utf16_def)

lemma parse_analysis_Str:
  "parseRefactoringSuggestionsFromAgent_analysis (Str text) =
     Inr (if text = [] \<or> includes_js text noSuggestionsMarker then []
          else map (\<lambda>(index, line).
                  \<lparr>id_s = index,
                   title = utf16 ''[OPTIMIZATION #'' @ showNat (index + 1) @ utf16 '']'',
                   description = dropWhile bulletClass_analysis line,
                   priority = (if index < 2 then utf16 ''HIGH'' else utf16 ''MEDIUM''),
                   category = utf16 ''REFACTOR'',
                   color = utf16 ''#2ED573''\<rparr>)
                (enumerate 0 (survivingLines text)))"
proof -
  define F where "F = (\<lambda>index d.
     \<lparr>id_s = index,
      title = utf16 ''[OPTIMIZATION #'' @ showNat (index + 1) @ utf16 '']'',
      description = d,
      priority = (if index < 2 then utf16 ''HIGH'' else utf16 ''MEDIUM''),
      category = utf16 ''REFACTOR'',
      color = utf16 ''#2ED573''\<rparr>)"
  have unfold: "parseRefactoringSuggestionsFromAgent_analysis (Str text) =
     (if text = [] \<or> includes_js text noSuggestionsMarker then Inr []
      else sequence_sum
             (map (\<lambda>x. Inr (F (fst x)
                     (trim (replace_anchored (Rep 1 bulletClass_analysis) (snd x)))))
                (enumerate 0 (survivingLines text))))"
    by (simp add: parseRefactoringSuggestionsFromAgent_analysis_def color_of_O_1 F_def
        cleanedLines_survivingLines Let_def case_prod_unfold)
  have "map (\<lambda>x. F (fst x) (trim (replace_anchored (Rep 1 bulletClass_analysis) (snd x))))
            (enumerate 0 (survivingLines text))
      = map (\<lambda>x. F (fst x) (dropWhile bulletClass_analysis (snd x)))
            (enumerate 0 (survivingLines text))"
    by (rule map_cong) (auto dest!: in_enumerate_snd simp: cleanLine_analysis [unfolded One_nat_def])
  then show ?thesis
    unfolding unfold sequence_sum_map_Inr by (simp add: F_def case_prod_unfold)
qed

lemma set_splitLines: "l \<in> set (splitLines s) \<Longrightarrow> set l \<subseteq> set s"
proof (induction s arbitrary: l)
  case Nil
  then show ?case by simp
next
  case (Cons c cs)
  show ?case
  proof (cases "splitLines cs")
    case Nil
    with Cons.prems show ?thesis
      by (auto split: if_splits)
  next
    case (Cons a list)
    have "set a \<subseteq> set cs" "\<And>l. l \<in> set list \<Longrightarrow> set l \<subseteq> set cs"
      using Cons.IH Cons by simp_all
    with Cons.prems Cons show ?thesis
      by (auto split: if_splits)
  qed
qed

lemma set_trim: "set (trim l) \<subseteq> set l"
proof -
  have "set (trim l) \<subseteq> set (dropWhile isWhiteSpace l)"
    unfolding trim_def using set_dropWhileD by fastforce
  also have "\<dots> \<subseteq> set l"
    using set_dropWhileD by fastforce
  finally show ?thesis .
qed

lemma set_survivingLines: "l \<in> set (survivingLines s) \<Longrightarrow> set l \<subseteq> set s"
  using set_splitLines set_trim by (fastforce simp: survivingLines_def)

lemma dropWhile_cong_set:
  "(\<And>c. c \<in> set l \<Longrightarrow> p c = q c) \<Longrightarrow> dropWhile p l = dropWhile q l"
  by (induction l) auto

lemma facts_part0:
  "map_sum id (map facts) (parseRefactoringSuggestionsFromAgent_part0 (Str text)) =
     Inr (if text = [] \<or> includes_js text noSuggestionsMarker then []
          else claimed_suggestions ''High'' ''Medium'' ''Refactoring'' text)"
proof -
  have "bulletClass_part0 = isBulletGlyph"
    by (rule ext) (simp add: bulletClass_part0_def isBulletGlyph_def)
  then show ?thesis
    by (simp add: parse_part0_Str claimed_suggestions_def facts_def case_prod_unfold comp_def)
qed

lemma facts_analysis:
  assumes "\<forall>c\<in>set text. c \<notin> {8226, 8218, 196, 162}"
  shows "map_sum id (map facts) (parseRefactoringSuggestionsFromAgent_analysis (Str text)) =
     Inr (if text = [] \<or> includes_js text noSuggestionsMarker then []
          else claimed_suggestions ''HIGH'' ''MEDIUM'' ''REFACTOR'' text)"
proof -
  have "dropWhile bulletClass_analysis l = dropWhile isBulletGlyph l"
    if "l \<in> set (survivingLines text)" for l
  proof (rule dropWhile_cong_set)
    fix c assume "c \<in> set l"
    with that set_survivingLines have "c \<in> set text" by blast
    with assms show "bulletClass_analysis c = isBulletGlyph c"
      by (auto simp: bulletClass_analysis_def isBulletGlyph_def)
  qed
  then have "map (\<lambda>(i, l). (i, dropWhile bulletClass_analysis l,
                          if i < 2 then utf16 ''HIGH'' else utf16 ''MEDIUM'', utf16 ''REFACTOR''))
               (enumerate 0 (survivingLines text))
           = map (\<lambda>(i, l). (i, dropWhile isBulletGlyph l,
                          if i < 2 then utf16 ''HIGH'' else utf16 ''MEDIUM'', utf16 ''REFACTOR''))
               (enumerate 0 (survivingLines text))"
    by (intro map_cong) (auto dest!: in_enumerate_snd)
  then show ?thesis
    by (simp add: parse_analysis_Str claimed_suggestions_def facts_def case_prod_unfold comp_def)
qed

lemma survivingLines_empty_iff:
  "survivingLines text = [] \<longleftrightarrow>
     (\<forall>seg\<in>set (splitLines text). trim seg = [] \<or> isHeaderLine (trim seg))"
  by (auto simp: survivingLines_def filter_empty_conv)

lemma enumerate_Nil_iff: "enumerate n xs = [] \<longleftrightarrow> xs = []"
  by (cases xs) auto

lemma parse_empty_iff:
  "parseRefactoringSuggestionsFromAgent_part0 (Str text) = Inr [] \<longleftrightarrow>
     text = [] \<or> includes_js text noSuggestionsMarker \<or> survivingLines text = []"
  "parseRefactoringSuggestionsFromAgent_analysis (Str text) = Inr [] \<longleftrightarrow>
     text = [] \<or> includes_js text noSuggestionsMarker \<or> survivingLines text = []"
  by (auto simp: parse_part0_Str parse_analysis_Str enumerate_Nil_iff)

lemma parse_absent:
  "parseRefactoringSuggestionsFromAgent_part0 Null = Inr []"
  "parseRefactoringSuggestionsFromAgent_part0 Undefined = Inr []"
  "parseRefactoringSuggestionsFromAgent_analysis Null = Inr []"
  "parseRefactoringSuggestionsFromAgent_analysis Undefined = Inr []"
  by (simp_all add: parseRefactoringSuggestionsFromAgent_part0_def
      parseRefactoringSuggestionsFromAgent_analysis_def)

lemma survivingLines_example:
  "survivingLines exampleSuggestions
     = [utf16 ''1. Extract method'', utf16 ''2. Rename variable'', utf16 ''3. Remove dead code'']"
  by (simp add: survivingLines_def exampleSuggestions_def trim_def isHeaderLine_def
      startsWith_i_def upperAscii_def isWhiteSpace_def utf16_def)

lemma example_text_ok:
  "exampleSuggestions \<noteq> []" "\<not> includes_js exampleSuggestions noSuggestionsMarker"
  "\<forall>c\<in>set exampleSuggestions. c \<notin> {8226, 8218, 196, 162}"
  by (simp_all add: exampleSuggestions_def noSuggestionsMarker_def utf16_def)

lemma claimed_suggestions_example:
  "claimed_suggestions h m r exampleSuggestions
     = [(0, utf16 ''Extract method'', utf16 h, utf16 r),
        (1, utf16 ''Rename variable'', utf16 h, utf16 r),
        (2, utf16 ''Remove dead code'', utf16 m, utf16 r)]"
  unfolding claimed_suggestions_def survivingLines_example
  by (simp add: enumerate_eq_zip upt_rec [of 0] upt_rec [of 1] upt_rec [of 2])
     (simp add: utf16_def isBulletGlyph_def isDigit_def isWhiteSpace_def)

subsection \<open>Claim C2: when the suggestion list is empty\<close>

text \<open>
  C2, as stated: the list is empty only if the text is absent or contains the marker.
  It fails for the text of one newline: it is not empty and has no marker, yet no line
  survives and the list is empty. A text of header and separator lines does the same.
\<close>

theorem parseRefactoringSuggestions_newline_counterexample:
  "parseRefactoringSuggestionsFromAgent_part0 (Str [10]) = Inr []
   \<and> parseRefactoringSuggestionsFromAgent_analysis (Str [10]) = Inr []
   \<and> parseRefactoringSuggestionsFromAgent_part0 (Str (utf16 ''---'')) = Inr []
   \<and> [10] \<noteq> ([] :: jsstring)
   \<and> \<not> includes_js [10] noSuggestionsMarker
   \<and> \<not> includes_js (utf16 ''---'') noSuggestionsMarker"
  by (simp add: parse_empty_iff survivingLines_def trim_def isWhiteSpace_def
      noSuggestionsMarker_def isHeaderLine_def startsWith_i_def upperAscii_def utf16_def)

text \<open>
  C2, amended: the list is empty if and only if the text is absent (\<open>null\<close>,
  \<open>undefined\<close>, empty), or contains the marker \<open>No refactoring suggestions\<close>, or each of
  its segments between newlines is, once trimmed, empty or a header or separator line.
\<close>

theorem parseRefactoringSuggestions_empty_iff:
  "(parseRefactoringSuggestionsFromAgent_part0 (Str text) = Inr [] \<longleftrightarrow>
      text = [] \<or> includes_js text noSuggestionsMarker
      \<or> (\<forall>seg\<in>set (splitLines text). trim seg = [] \<or> isHeaderLine (trim seg)))
   \<and> (parseRefactoringSuggestionsFromAgent_analysis (Str text) = Inr [] \<longleftrightarrow>
      text = [] \<or> includes_js text noSuggestionsMarker
      \<or> (\<forall>seg\<in>set (splitLines text). trim seg = [] \<or> isHeaderLine (trim seg)))
   \<and> parseRefactoringSuggestionsFromAgent_part0 Null = Inr []
   \<and> parseRefactoringSuggestionsFromAgent_part0 Undefined = Inr []
   \<and> parseRefactoringSuggestionsFromAgent_analysis Null = Inr []
   \<and> parseRefactoringSuggestionsFromAgent_analysis Undefined = Inr []"
  by (simp only: parse_empty_iff parse_absent survivingLines_empty_iff simp_thms)

theorem parseRefactoringSuggestions_empty_iff_witness:
  "parseRefactoringSuggestionsFromAgent_part0
        (Str (utf16 ''Suggestions:'' @ [10, 10] @ utf16 ''====='')) = Inr []
   \<and> parseRefactoringSuggestionsFromAgent_analysis
        (Str (utf16 ''Suggestions:'' @ [10, 10] @ utf16 ''====='')) = Inr []"
proof -
  have h: "\<forall>seg\<in>set (splitLines (utf16 ''Suggestions:'' @ [10, 10] @ utf16 ''====='')).
             trim seg = [] \<or> isHeaderLine (trim seg)"
    by (simp add: trim_def isHeaderLine_def startsWith_i_def upperAscii_def isWhiteSpace_def
        utf16_def)
  show ?thesis
    using h parseRefactoringSuggestions_empty_iff
      [of "utf16 ''Suggestions:'' @ [10, 10] @ utf16 ''=====''"]
    by blast
qed

subsection \<open>Claim C6: the suggestion records\<close>

text \<open>
  C6, as stated: every record has the category \<open>Refactoring\<close> and the priority \<open>High\<close>
  or \<open>Medium\<close>. In analysis.js the labels are \<open>REFACTOR\<close>, \<open>HIGH\<close> and \<open>MEDIUM\<close>:
  on the example of the claim its records differ from the claimed ones.
\<close>

theorem parseRefactoringSuggestions_labels_counterexample:
  "map_sum id (map facts) (parseRefactoringSuggestionsFromAgent_analysis (Str exampleSuggestions))
     = Inr [(0, utf16 ''Extract method'', utf16 ''HIGH'', utf16 ''REFACTOR''),
            (1, utf16 ''Rename variable'', utf16 ''HIGH'', utf16 ''REFACTOR''),
            (2, utf16 ''Remove dead code'', utf16 ''MEDIUM'', utf16 ''REFACTOR'')]
   \<and> map_sum id (map facts)
        (parseRefactoringSuggestionsFromAgent_analysis (Str exampleSuggestions))
     \<noteq> Inr (claimed_suggestions ''High'' ''Medium'' ''Refactoring'' exampleSuggestions)"
  by (simp add: facts_analysis [OF example_text_ok(3)] example_text_ok(1,2)
      claimed_suggestions_example)
     (simp add: utf16_def)

text \<open>
  C6, amended: for a text that is not empty and has no marker, the segments between
  newlines are trimmed, the empty ones and the header and separator lines (starting,
  whatever the case, with \<open>REFACTORING\<close> or \<open>SUGGESTION\<close>, or with three \<open>=\<close> or three
  \<open>-\<close>) are dropped, and each surviving line gives one record, in order: its 0-based
  ordinal, the line without its leading digits, periods, hyphens, asterisks, plus signs,
  bullets and white space, the priority \<open>High\<close> for the first two and \<open>Medium\<close> for the
  rest, and the category \<open>Refactoring\<close>, in part_000; in analysis.js the labels are
  \<open>HIGH\<close>, \<open>MEDIUM\<close> and \<open>REFACTOR\<close>, and what it strips from a text holding the bullet
  U+2022 or one of U+201A, U+00C4, U+00A2 is left out. The example of the claim gives
  three records with the descriptions \<open>Extract method\<close>, \<open>Rename variable\<close>,
  \<open>Remove dead code\<close>.
\<close>

theorem parseRefactoringSuggestions_records:
  assumes "text \<noteq> []" and "\<not> includes_js text noSuggestionsMarker"
  shows "map_sum id (map facts) (parseRefactoringSuggestionsFromAgent_part0 (Str text))
           = Inr (claimed_suggestions ''High'' ''Medium'' ''Refactoring'' text)
     \<and> ((\<forall>c\<in>set text. c \<notin> {8226, 8218, 196, 162}) \<longrightarrow>
          map_sum id (map facts) (parseRefactoringSuggestionsFromAgent_analysis (Str text))
           = Inr (claimed_suggestions ''HIGH'' ''MEDIUM'' ''REFACTOR'' text))
     \<and> claimed_suggestions ''High'' ''Medium'' ''Refactoring'' exampleSuggestions
           = [(0, utf16 ''Extract method'', utf16 ''High'', utf16 ''Refactoring''),
              (1, utf16 ''Rename variable'', utf16 ''High'', utf16 ''Refactoring''),
              (2, utf16 ''Remove dead code'', utf16 ''Medium'', utf16 ''Refactoring'')]"
  using assms facts_analysis [of "text"]
  by (simp add: facts_part0 claimed_suggestions_example)

theorem parseRefactoringSuggestions_records_witness:
  "exampleSuggestions \<noteq> [] \<and> \<not> includes_js exampleSuggestions noSuggestionsMarker
   \<and> map_sum id (map facts) (parseRefactoringSuggestionsFromAgent_part0 (Str exampleSuggestions))
       = Inr [(0, utf16 ''Extract method'', utf16 ''High'', utf16 ''Refactoring''),
              (1, utf16 ''Rename variable'', utf16 ''High'', utf16 ''Refactoring''),
              (2, utf16 ''Remove dead code'', utf16 ''Medium'', utf16 ''Refactoring'')]
   \<and> map_sum id (map facts)
        (parseRefactoringSuggestionsFromAgent_analysis (Str exampleSuggestions))
       = Inr (claimed_suggestions ''HIGH'' ''MEDIUM'' ''REFACTOR'' exampleSuggestions)"
  using example_text_ok
    parseRefactoringSuggestions_records [OF example_text_ok(1) example_text_ok(2)]
  by (simp only: simp_thms)


section \<open>Properties of the complexity extraction\<close>


















subsection \<open>Claim C4: complexity extraction\<close>




end
